theory Spec2Isabelle
  imports Complex_Main "HOL-Library.Char_ord" "HOL-Library.List_Lexorder"
begin

section \<open>Python values used by server.py\<close>

subsection \<open>Floats\<close>

text \<open>
  A Python \<open>float\<close> is an IEEE double: a finite number, a negative zero, an infinity
  or a NaN. Every finite double is a rational, so \<open>Finite q\<close> ranges over a superset
  of the finite doubles (\<open>Finite 0\<close> is \<open>+0.0\<close>). The request body is read by
  \<open>json.loads\<close>, which accepts \<open>NaN\<close>, \<open>Infinity\<close> and \<open>-Infinity\<close>, and pydantic's
  \<open>float\<close> keeps them, so all five shapes reach \<open>create_order\<close>.
\<close>

datatype pyfloat = Finite rat | NegZero | PosInf | NegInf | NaN

text \<open>\<open>bool(x)\<close> of a float: false exactly for the two zeros (NaN is truthy).\<close>

fun float_truthy :: "pyfloat \<Rightarrow> bool" where
  "float_truthy (Finite q) = (q \<noteq> 0)"
| "float_truthy NegZero = False"
| "float_truthy PosInf = True"
| "float_truthy NegInf = True"
| "float_truthy NaN = True"

text \<open>\<open>bool(x)\<close> of an \<open>Optional[float]\<close>: \<open>None\<close> is falsy.\<close>

fun truthy :: "pyfloat option \<Rightarrow> bool" where
  "truthy None = False"
| "truthy (Some x) = float_truthy x"

text \<open>The number a finite float denotes.\<close>

fun float_value :: "pyfloat \<Rightarrow> rat" where
  "float_value (Finite q) = q"
| "float_value _ = 0"

text \<open>\<open>a > b\<close> on floats: every comparison with NaN is false.\<close>

fun float_gt :: "pyfloat \<Rightarrow> pyfloat \<Rightarrow> bool" where
  "float_gt NaN b = False"
| "float_gt a NaN = False"
| "float_gt PosInf b = (b \<noteq> PosInf)"
| "float_gt a PosInf = False"
| "float_gt NegInf b = False"
| "float_gt a NegInf = True"
| "float_gt a b = (float_value a > float_value b)"

text \<open>\<open>a == b\<close> on floats: NaN equals nothing, the two zeros are equal.\<close>

fun float_eq :: "pyfloat \<Rightarrow> pyfloat \<Rightarrow> bool" where
  "float_eq NaN b = False"
| "float_eq a NaN = False"
| "float_eq PosInf b = (b = PosInf)"
| "float_eq a PosInf = False"
| "float_eq NegInf b = (b = NegInf)"
| "float_eq a NegInf = False"
| "float_eq a b = (float_value a = float_value b)"

definition is_finite :: "pyfloat \<Rightarrow> bool" where
  "is_finite x = (case x of Finite q \<Rightarrow> True | NegZero \<Rightarrow> True | _ \<Rightarrow> False)"

text \<open>A float that is greater than zero (\<open>x > 0\<close> in Python).\<close>

definition is_positive :: "pyfloat \<Rightarrow> bool" where
  "is_positive x = float_gt x (Finite 0)"

subsection \<open>Decimal text of numbers\<close>

definition digit_char :: "nat \<Rightarrow> char" where
  "digit_char n = ''0123456789'' ! (n mod 10)"

text \<open>\<open>str(n)\<close> for a natural number.\<close>

function str_nat :: "nat \<Rightarrow> string" where
  "str_nat n = (if n < 10 then [digit_char n] else str_nat (n div 10) @ [digit_char n])"
  by pat_completeness auto
termination
  by (relation "measure id") auto

declare str_nat.simps [simp del]

text \<open>\<open>str(i)\<close> for a Python \<open>int\<close>.\<close>

definition str_int :: "int \<Rightarrow> string" where
  "str_int i = (if i < 0 then ''-'' @ str_nat (nat (- i)) else str_nat (nat i))"

text \<open>
  Rounding to the nearest integer, ties to the even neighbour: what CPython's
  correctly rounded float formatting does with the exact value of the double.
\<close>

definition round_half_even :: "rat \<Rightarrow> int" where
  "round_half_even x =
     (let f = \<lfloor>x\<rfloor>; d = x - of_int f
      in if d < 1 / 2 then f
         else if 1 / 2 < d then f + 1
         else if even f then f else f + 1)"

definition zero_pad :: "nat \<Rightarrow> string \<Rightarrow> string" where
  "zero_pad k s = replicate (k - length s) (CHR ''0'') @ s"

text \<open>
  \<open>format(x, '.kf')\<close>, the format spec behind \<open>f"{x:.2f}"\<close> and \<open>f"{x:.6f}"\<close>:
  sign, integer digits, and \<open>k\<close> fraction digits after a point (no point when
  \<open>k = 0\<close>); the infinities and NaN print as words.
\<close>

fun format_f :: "nat \<Rightarrow> pyfloat \<Rightarrow> string" where
  "format_f k (Finite q) =
     (let n = nat (round_half_even (\<bar>q\<bar> * 10 ^ k))
      in (if q < 0 then ''-'' else '''') @ str_nat (n div 10 ^ k) @
         (if k = 0 then '''' else ''.'' @ zero_pad k (str_nat (n mod 10 ^ k))))"
| "format_f k NegZero =
     ''-0'' @ (if k = 0 then '''' else ''.'' @ replicate k (CHR ''0''))"
| "format_f k PosInf = ''inf''"
| "format_f k NegInf = ''-inf''"
| "format_f k NaN = ''nan''"

declare format_f.simps [simp del]

definition is_digit :: "char \<Rightarrow> bool" where
  "is_digit c = (c \<in> set ''0123456789'')"

text \<open>
  A decimal numeral with exactly \<open>k\<close> decimal places: an optional minus sign, one
  or more digits, a point, and exactly \<open>k\<close> digits.
\<close>

definition has_decimals :: "nat \<Rightarrow> string \<Rightarrow> bool" where
  "has_decimals k s =
     (let u = (case s of [] \<Rightarrow> [] | c # cs \<Rightarrow> if c = CHR ''-'' then cs else s);
          ip = takeWhile is_digit u;
          r = dropWhile is_digit u
      in ip \<noteq> [] \<and>
         (case r of [] \<Rightarrow> False
          | c # fp \<Rightarrow> c = CHR ''.'' \<and> length fp = k \<and> list_all is_digit fp))"

section \<open>The library functions server.py calls\<close>

text \<open>
  A Python \<open>str\<close> is modelled by the bytes of its UTF-8 encoding (\<open>string\<close>), an
  encoding that is injective and keeps the order of code points, so equality,
  set membership and \<open>sorted\<close> on strings are those of Python.

  Three library functions are parameters of the model, supplied in a record:
  \<open>str.upper\<close>, which consults the Unicode case tables; the hex digest of
  \<open>hmac.new(key, msg, hashlib.sha256)\<close>, from the key and the message; and the
  JSON parser behind \<open>r.json()\<close>, which gives \<open>None\<close> where Python raises, into a
  type \<open>'j\<close> of JSON values. Every theorem below holds for all functions in their
  place, so for the ones Python has.
\<close>

record 'j pylib =
  str_upper :: "string \<Rightarrow> string"
  hmac_sha256_hexdigest :: "string \<Rightarrow> string \<Rightarrow> string"
  json_loads :: "string \<Rightarrow> 'j option"

subsection \<open>Dictionaries of request parameters\<close>

text \<open>
  The values server.py stores in a parameter dictionary are strings and the
  integer timestamp. A \<open>dict\<close> keeps insertion order, which \<open>urlencode\<close> follows, so
  it is an association list with distinct keys.
\<close>

datatype pval = S string | I int

type_synonym params = "(string \<times> pval) list"

text \<open>\<open>d[k] = v\<close> and \<open>d.update({k: v})\<close>: an existing key keeps its place.\<close>

fun dict_set :: "params \<Rightarrow> string \<Rightarrow> pval \<Rightarrow> params" where
  "dict_set [] k v = [(k, v)]"
| "dict_set ((k', v') # d) k v =
     (if k' = k then (k, v) # d else (k', v') # dict_set d k v)"

text \<open>\<open>d.get(k)\<close>.\<close>

fun dict_get :: "params \<Rightarrow> string \<Rightarrow> pval option" where
  "dict_get [] k = None"
| "dict_get ((k', v') # d) k = (if k' = k then Some v' else dict_get d k)"

subsection \<open>urllib.parse.urlencode\<close>

definition hex_char :: "nat \<Rightarrow> char" where
  "hex_char n = ''0123456789ABCDEF'' ! (n mod 16)"

definition is_unreserved :: "char \<Rightarrow> bool" where
  "is_unreserved c =
     (c \<in> set ''ABCDEFGHIJKLMNOPQRSTUVWXYZabcdefghijklmnopqrstuvwxyz0123456789_.-~'')"

text \<open>\<open>quote_plus\<close> of one byte: kept, a space as \<open>+\<close>, or \<open>%XX\<close>.\<close>

definition quote_byte :: "char \<Rightarrow> string" where
  "quote_byte c =
     (if is_unreserved c then [c]
      else if c = CHR '' '' then ''+''
      else [CHR ''%'', hex_char (of_char c div 16), hex_char (of_char c)])"

definition quote_plus :: "string \<Rightarrow> string" where
  "quote_plus s = concat (map quote_byte s)"

fun pval_str :: "pval \<Rightarrow> string" where
  "pval_str (S s) = s"
| "pval_str (I i) = str_int i"

text \<open>\<open>'&'.join(l)\<close>.\<close>

fun join_amp :: "string list \<Rightarrow> string" where
  "join_amp [] = []"
| "join_amp [x] = x"
| "join_amp (x # y # ys) = x @ ''&'' @ join_amp (y # ys)"

text \<open>\<open>urlencode(params, doseq=True)\<close> for string and integer values.\<close>

definition urlencode :: "params \<Rightarrow> string" where
  "urlencode d =
     join_amp (map (\<lambda>(k, v). quote_plus k @ ''='' @ quote_plus (pval_str v)) d)"

section \<open>server.py\<close>

subsection \<open>Configuration (lines 12 to 16)\<close>

record config =
  BINANCE_KEY :: string
  BINANCE_SECRET :: string
  BASE_URL :: string
  ALLOWED_SYMBOLS :: "string set"
  MAX_QUOTE_TRADE_USDT :: pyfloat

text \<open>\<open>s.split(",")\<close>.\<close>

fun split_comma :: "string \<Rightarrow> string list" where
  "split_comma [] = [[]]"
| "split_comma (c # cs) =
     (if c = CHR '','' then [] # split_comma cs
      else (case split_comma cs of [] \<Rightarrow> [[c]] | w # ws \<Rightarrow> (c # w) # ws))"

text \<open>
  Line 15: \<open>set(os.getenv("ALLOWED_SYMBOLS", "BTCUSDT,ETHUSDT").split(","))\<close>; the
  argument is the value of the environment variable, \<open>None\<close> when it is unset.
\<close>

definition allowed_symbols_of :: "string option \<Rightarrow> string set" where
  "allowed_symbols_of env =
     set (split_comma (case env of None \<Rightarrow> ''BTCUSDT,ETHUSDT'' | Some v \<Rightarrow> v))"

subsection \<open>OrderIn (lines 23 to 30)\<close>

datatype side = BUY | SELL

datatype order_type = MARKET | LIMIT

record OrderIn =
  symbol :: string
  side :: side
  otype :: order_type
  quote_amount :: "pyfloat option"
  quantity :: "pyfloat option"
  price :: "pyfloat option"
  confirmed :: bool

text \<open>
  The pydantic constructor: the three optional amounts default to \<open>None\<close> and
  \<open>confirmed\<close> to \<open>False\<close> when the request body leaves them out.
\<close>

definition make_OrderIn ::
  "string \<Rightarrow> side \<Rightarrow> order_type \<Rightarrow> pyfloat option \<Rightarrow> pyfloat option \<Rightarrow>
   pyfloat option \<Rightarrow> bool option \<Rightarrow> OrderIn" where
  "make_OrderIn sy sd ty qa qt pr cf =
     \<lparr>symbol = sy, side = sd, otype = ty, quote_amount = qa, quantity = qt,
      price = pr, confirmed = (case cf of None \<Rightarrow> False | Some b \<Rightarrow> b)\<rparr>"

fun side_str :: "side \<Rightarrow> string" where
  "side_str BUY = ''BUY''"
| "side_str SELL = ''SELL''"

fun type_str :: "order_type \<Rightarrow> string" where
  "type_str MARKET = ''MARKET''"
| "type_str LIMIT = ''LIMIT''"

subsection \<open>Exceptions\<close>

text \<open>
  The detail of an \<open>HTTPException\<close> is a string; an f-string is kept as the list
  of its pieces, with \<open>repr\<close> of a float and of a list of strings left symbolic.
\<close>

datatype piece = Text string | FloatRepr pyfloat | ListRepr "string list"

datatype httpx_error = TimeoutException | ConnectError

datatype exc =
    HTTPException int "piece list"
  | HttpxError httpx_error
  | JSONDecodeError

text \<open>The two bytes of the UTF-8 encoding of U+00E9, which the messages contain.\<close>

definition e_acute :: string where
  "e_acute = [CHR 0xC3, CHR 0xA9]"

subsection \<open>The checks of create_order (lines 84 to 111)\<close>

text \<open>
  Lines 84 to 111 of \<open>create_order\<close>: the checks, each raising
  \<open>HTTPException(400, ...)\<close>, and the parameter dictionary built for \<open>_post\<close>.
\<close>

definition order_params :: "'j pylib \<Rightarrow> config \<Rightarrow> OrderIn \<Rightarrow> exc + params" where
  "order_params lib cfg od =
     (let sym = str_upper lib (symbol od) in
      if sym \<notin> ALLOWED_SYMBOLS cfg then
        Inl (HTTPException 400
          [Text (''Pair non autoris'' @ e_acute @ ''e. Autoris'' @ e_acute @ ''es: ''),
           ListRepr (sorted_list_of_set (ALLOWED_SYMBOLS cfg))])
      else if \<not> confirmed od then
        Inl (HTTPException 400 [Text ''Confirmation manquante.''])
      else
        let params = [(''symbol'', S sym), (''side'', S (side_str (side od))),
                      (''type'', S (type_str (otype od)))]
        in (case otype od of
              MARKET \<Rightarrow>
                (case side od of
                   BUY \<Rightarrow>
                     (case quote_amount od of
                        None \<Rightarrow> Inl (HTTPException 400
                                 [Text ''Pour BUY MARKET, fournir quote_amount.''])
                      | Some qa \<Rightarrow>
                          if \<not> float_truthy qa then
                            Inl (HTTPException 400
                              [Text ''Pour BUY MARKET, fournir quote_amount.''])
                          else if float_gt qa (MAX_QUOTE_TRADE_USDT cfg) then
                            Inl (HTTPException 400
                              [Text ''Montant > limite '',
                               FloatRepr (MAX_QUOTE_TRADE_USDT cfg), Text '' USDT.''])
                          else Inr (dict_set params ''quoteOrderQty'' (S (format_f 2 qa))))
                 | SELL \<Rightarrow>
                     (case quantity od of
                        None \<Rightarrow> Inl (HTTPException 400
                                 [Text ''Pour SELL MARKET, fournir quantity.''])
                      | Some qt \<Rightarrow>
                          if \<not> float_truthy qt then
                            Inl (HTTPException 400
                              [Text ''Pour SELL MARKET, fournir quantity.''])
                          else Inr (dict_set params ''quantity'' (S (format_f 6 qt)))))
            | LIMIT \<Rightarrow>
                (case (quantity od, price od) of
                   (Some qt, Some pr) \<Rightarrow>
                     if \<not> (float_truthy qt \<and> float_truthy pr) then
                       Inl (HTTPException 400
                         [Text ''Pour LIMIT, fournir quantity et price.''])
                     else Inr (dict_set (dict_set (dict_set params
                            ''quantity'' (S (format_f 6 qt)))
                            ''price'' (S (format_f 2 pr)))
                            ''timeInForce'' (S ''GTC''))
                 | _ \<Rightarrow> Inl (HTTPException 400
                          [Text ''Pour LIMIT, fournir quantity et price.'']))))"

subsection \<open>_sign (lines 32 to 35)\<close>

text \<open>
  Python names cannot start an Isabelle identifier with an underscore: \<open>_sign\<close>,
  \<open>_get\<close> and \<open>_post\<close> are \<open>u_sign\<close>, \<open>u_get\<close> and \<open>u_post\<close>. \<open>.encode()\<close> is the
  identity on the UTF-8 bytes that model a string.
\<close>

definition u_sign :: "'j pylib \<Rightarrow> config \<Rightarrow> params \<Rightarrow> string" where
  "u_sign lib cfg params =
     (let query_string = urlencode params;
          signature = hmac_sha256_hexdigest lib (BINANCE_SECRET cfg) query_string
      in query_string @ ''&signature='' @ signature)"

subsection \<open>The clock, the network and the store of dictionaries\<close>

datatype http_method = GET | POST

record request =
  req_method :: http_method
  req_url :: string
  req_data :: "string option"
  req_headers :: "(string \<times> string) list"
  req_timeout :: nat

text \<open>
  What one \<open>client.get\<close> or \<open>client.post\<close> does: it returns a response (status code and
  text) or raises (a timeout after 15 seconds, a failed connection).
\<close>

datatype outcome = Response int string | Failure httpx_error

text \<open>
  The world of one call: the value of \<open>int(time.time() * 1000)\<close> when it is read,
  and the answer of the network to each request.
\<close>

record world =
  now_ms :: int
  transport :: "request \<Rightarrow> outcome"

text \<open>
  Dictionaries are objects: \<open>_get\<close> and \<open>_post\<close> receive a reference and update the
  dictionary behind it. The store holds the dictionaries; a reference is an index
  into it, and a new dictionary is put at the end.
\<close>

type_synonym ref = nat

type_synonym store = "params list"

definition alloc :: "store \<Rightarrow> params \<Rightarrow> ref \<times> store" where
  "alloc h d = (length h, h @ [d])"

subsection \<open>_get (lines 37 to 50)\<close>

text \<open>
  The result is the value returned or the exception raised, the store after the
  call, and the requests sent. \<open>params or {}\<close> is the caller's dictionary unless
  that is \<open>None\<close> or empty (an empty \<open>dict\<close> is falsy), and a new one then.
\<close>

definition u_get ::
  "'j pylib \<Rightarrow> config \<Rightarrow> world \<Rightarrow> store \<Rightarrow> string \<Rightarrow> ref option \<Rightarrow> bool \<Rightarrow>
   (exc + 'j) \<times> store \<times> request list" where
  "u_get lib cfg w h path params signed =
     (let headers = [(''X-MBX-APIKEY'', BINANCE_KEY cfg)];
          (p, h1) = (case params of
                       None \<Rightarrow> alloc h []
                     | Some r \<Rightarrow> if h ! r = [] then alloc h [] else (r, h));
          h2 = (if signed then h1[p := dict_set (h1 ! p) ''timestamp'' (I (now_ms w))]
                else h1);
          qs = (if signed then u_sign lib cfg (h2 ! p) else urlencode (h2 ! p));
          url = (if qs \<noteq> [] then BASE_URL cfg @ path @ ''?'' @ qs
                 else BASE_URL cfg @ path);
          rq = \<lparr>req_method = GET, req_url = url, req_data = None,
                req_headers = headers, req_timeout = 15\<rparr>
      in (case transport w rq of
            Failure e \<Rightarrow> (Inl (HttpxError e), h2, [rq])
          | Response status_code text \<Rightarrow>
              if status_code \<ge> 400 then
                (Inl (HTTPException status_code [Text text]), h2, [rq])
              else (case json_loads lib text of
                      None \<Rightarrow> (Inl JSONDecodeError, h2, [rq])
                    | Some j \<Rightarrow> (Inr j, h2, [rq]))))"

subsection \<open>_post (lines 52 to 64)\<close>

text \<open>The value \<open>_post\<close> returns: \<open>r.json()\<close>, or \<open>{"ok": True}\<close> for an empty text.\<close>

datatype 'j post_value = Json 'j | Ok_True

definition u_post ::
  "'j pylib \<Rightarrow> config \<Rightarrow> world \<Rightarrow> store \<Rightarrow> string \<Rightarrow> ref \<Rightarrow> bool \<Rightarrow>
   (exc + 'j post_value) \<times> store \<times> request list" where
  "u_post lib cfg w h path params signed =
     (let headers = [(''X-MBX-APIKEY'', BINANCE_KEY cfg),
                     (''Content-Type'', ''application/x-www-form-urlencoded'')];
          h2 = (if signed then
                  h[params := dict_set (h ! params) ''timestamp'' (I (now_ms w))]
                else h);
          body = (if signed then u_sign lib cfg (h2 ! params)
                  else urlencode (h2 ! params));
          url = BASE_URL cfg @ path;
          rq = \<lparr>req_method = POST, req_url = url, req_data = Some body,
                req_headers = headers, req_timeout = 15\<rparr>
      in (case transport w rq of
            Failure e \<Rightarrow> (Inl (HttpxError e), h2, [rq])
          | Response status_code text \<Rightarrow>
              if status_code \<ge> 400 then
                (Inl (HTTPException status_code [Text text]), h2, [rq])
              else if text \<noteq> [] then
                (case json_loads lib text of
                   None \<Rightarrow> (Inl JSONDecodeError, h2, [rq])
                 | Some j \<Rightarrow> (Inr (Json j), h2, [rq]))
              else (Inr Ok_True, h2, [rq])))"

subsection \<open>create_order (lines 82 to 114)\<close>

text \<open>The value \<open>create_order\<close> returns: \<open>{"exchange_response": result}\<close>.\<close>

datatype 'j order_reply = Exchange_response "'j post_value"

text \<open>
  The order \<open>o\<close> of the source is \<open>od\<close> here. The dictionary \<open>params\<close> is local to the
  call, so \<open>_post\<close> runs on a store that holds it alone, at reference 0. The result
  is the reply or the exception, and the requests sent to the exchange.
\<close>

definition create_order ::
  "'j pylib \<Rightarrow> config \<Rightarrow> world \<Rightarrow> OrderIn \<Rightarrow> (exc + 'j order_reply) \<times> request list" where
  "create_order lib cfg w od =
     (case order_params lib cfg od of
        Inl e \<Rightarrow> (Inl e, [])
      | Inr params \<Rightarrow>
          (case u_post lib cfg w [params] ''/api/v3/order'' 0 True of
             (Inl e, h, calls) \<Rightarrow> (Inl e, calls)
           | (Inr result, h, calls) \<Rightarrow> (Inr (Exchange_response result), calls)))"

section \<open>Concrete values for evaluation\<close>

text \<open>
  \<open>str.upper\<close> on ASCII text, where it maps the letters a to z to A to Z and keeps
  every other character.
\<close>

definition upper_char :: "char \<Rightarrow> char" where
  "upper_char c =
     (case map_of (zip ''abcdefghijklmnopqrstuvwxyz'' ''ABCDEFGHIJKLMNOPQRSTUVWXYZ'') c of
        None \<Rightarrow> c | Some d \<Rightarrow> d)"

definition ascii_upper :: "string \<Rightarrow> string" where
  "ascii_upper s = map upper_char s"

text \<open>
  A digest that spells out its key and message instead of hashing them, so that
  an evaluated request shows what was signed.
\<close>

definition symbolic_digest :: "string \<Rightarrow> string \<Rightarrow> string" where
  "symbolic_digest key msg = ''HMAC('' @ key @ '';'' @ msg @ '')''"

text \<open>A library whose JSON values are the texts themselves.\<close>

definition test_lib :: "string pylib" where
  "test_lib = \<lparr>str_upper = ascii_upper, hmac_sha256_hexdigest = symbolic_digest,
               json_loads = Some\<rparr>"

text \<open>The configuration of lines 12 to 16 when only the two credentials are set.\<close>

definition test_config :: config where
  "test_config = \<lparr>BINANCE_KEY = ''k'', BINANCE_SECRET = ''s'',
                   BASE_URL = ''https://testnet.binance.vision'',
                   ALLOWED_SYMBOLS = allowed_symbols_of None,
                   MAX_QUOTE_TRADE_USDT = Finite 100\<rparr>"

text \<open>Worlds: an exchange that accepts, one that rejects, one that cannot be reached.\<close>

definition world_ok :: world where
  "world_ok = \<lparr>now_ms = 1700000000000, transport = (\<lambda>rq. Response 200 ''{}'')\<rparr>"

definition world_rejecting :: world where
  "world_rejecting =
     \<lparr>now_ms = 1700000000000, transport = (\<lambda>rq. Response 418 ''IP banned'')\<rparr>"

definition world_down :: world where
  "world_down = \<lparr>now_ms = 1700000000000, transport = (\<lambda>rq. Failure TimeoutException)\<rparr>"

section \<open>Properties\<close>

subsection \<open>Decimal text\<close>

lemma str_nat_nonempty: "str_nat n \<noteq> []"
  by (subst str_nat.simps) simp

lemma digit_char_is_digit: "is_digit (digit_char n)"
proof -
  have "n mod 10 < length ''0123456789''" by simp
  then show ?thesis unfolding digit_char_def is_digit_def by (rule nth_mem)
qed

lemma str_nat_digits: "list_all is_digit (str_nat n)"
proof (induction n rule: str_nat.induct)
  case (1 n)
  show ?case
    by (subst str_nat.simps) (use 1 in \<open>auto simp: digit_char_is_digit\<close>)
qed

lemma str_nat_length: "n < 10 ^ k \<Longrightarrow> 0 < k \<Longrightarrow> length (str_nat n) \<le> k"
proof (induction n arbitrary: k rule: str_nat.induct)
  case (1 n)
  show ?case
  proof (cases "n < 10")
    case True
    then show ?thesis using 1(3) by (subst str_nat.simps) simp
  next
    case False
    obtain j where k: "k = Suc j" using 1(3) by (cases k) auto
    have "j > 0" using False 1(2) k by (cases j) auto
    moreover have "n div 10 < 10 ^ j"
      using 1(2) k by (simp add: less_mult_imp_div_less mult.commute)
    ultimately have "length (str_nat (n div 10)) \<le> j" using 1(1)[OF False] by simp
    then show ?thesis using False k by (subst str_nat.simps) simp
  qed
qed

lemma is_digit_zero: "is_digit (CHR ''0'')"
  by (simp add: is_digit_def)

lemma zero_pad_digits: "list_all is_digit s \<Longrightarrow> list_all is_digit (zero_pad k s)"
  by (auto simp: zero_pad_def list_all_iff is_digit_zero)

lemma zero_pad_length: "length s \<le> k \<Longrightarrow> length (zero_pad k s) = k"
  by (simp add: zero_pad_def)

lemma not_digit_point: "\<not> is_digit (CHR ''.'')" and not_digit_minus: "\<not> is_digit (CHR ''-'')"
  by (simp_all add: is_digit_def)

lemma has_decimals_unsigned:
  assumes "ip \<noteq> []" "list_all is_digit ip" "list_all is_digit fp" "length fp = k"
  shows "has_decimals k (ip @ ''.'' @ fp)"
proof -
  obtain c cs where ip: "ip = c # cs" using assms(1) by (cases ip) auto
  have c: "is_digit c" using assms(2) ip by simp
  then have "c \<noteq> CHR ''-''" using not_digit_minus by auto
  moreover have "takeWhile is_digit (ip @ ''.'' @ fp) = ip"
    using assms(2) by (simp add: takeWhile_append2 list_all_iff not_digit_point)
  moreover have "dropWhile is_digit (ip @ ''.'' @ fp) = ''.'' @ fp"
    using assms(2) by (simp add: dropWhile_append2 list_all_iff not_digit_point)
  ultimately show ?thesis
    using assms ip unfolding has_decimals_def by (simp add: Let_def)
qed

lemma has_decimals_signed:
  assumes "ip \<noteq> []" "list_all is_digit ip" "list_all is_digit fp" "length fp = k"
  shows "has_decimals k (''-'' @ ip @ ''.'' @ fp)"
proof -
  have "takeWhile is_digit (ip @ ''.'' @ fp) = ip"
    using assms(2) by (simp add: takeWhile_append2 list_all_iff not_digit_point)
  moreover have "dropWhile is_digit (ip @ ''.'' @ fp) = ''.'' @ fp"
    using assms(2) by (simp add: dropWhile_append2 list_all_iff not_digit_point)
  ultimately show ?thesis
    using assms unfolding has_decimals_def by (simp add: Let_def)
qed

lemma format_f_has_decimals:
  assumes "0 < k" "is_finite x"
  shows "has_decimals k (format_f k x)"
proof (cases x)
  case (Finite q)
  define n where "n = nat (round_half_even (\<bar>q\<bar> * 10 ^ k))"
  have fp: "list_all is_digit (zero_pad k (str_nat (n mod 10 ^ k)))"
    "length (zero_pad k (str_nat (n mod 10 ^ k))) = k"
    using assms(1) by (simp_all add: zero_pad_digits str_nat_digits zero_pad_length str_nat_length)
  have ip: "str_nat (n div 10 ^ k) \<noteq> []" "list_all is_digit (str_nat (n div 10 ^ k))"
    by (simp_all add: str_nat_nonempty str_nat_digits)
  have eq: "format_f k x = (if q < 0 then ''-'' else []) @ str_nat (n div 10 ^ k) @
      ''.'' @ zero_pad k (str_nat (n mod 10 ^ k))"
    using assms(1) unfolding Finite n_def format_f.simps Let_def by simp
  show ?thesis
  proof (cases "q < 0")
    case True
    then show ?thesis using has_decimals_signed[OF ip fp] unfolding eq by simp
  next
    case False
    then show ?thesis using has_decimals_unsigned[OF ip fp] unfolding eq by simp
  qed
next
  case NegZero
  have "has_decimals k (''-'' @ ''0'' @ ''.'' @ replicate k (CHR ''0''))"
    by (rule has_decimals_signed) (simp_all add: is_digit_def list_all_iff)
  then show ?thesis using assms(1) NegZero by (simp add: format_f.simps)
qed (use assms in \<open>simp_all add: is_finite_def\<close>)

lemma format_f_not_finite: "\<not> is_finite x \<Longrightarrow> \<not> has_decimals k (format_f k x)"
  by (cases x) (simp_all add: is_finite_def has_decimals_def is_digit_def format_f.simps)

subsection \<open>Evaluation and shared facts\<close>

lemma replicate_eval: "replicate (numeral k) x = x # replicate (pred_numeral k) x"
  by (simp add: numeral_eq_Suc)

lemma format_f_examples:
  "format_f 2 (Finite 50) = ''50.00''"
  "format_f 2 (Finite 100) = ''100.00''"
  "format_f 2 (Finite 150) = ''150.00''"
  "format_f 2 (Finite (- 5)) = ''-5.00''"
  "format_f 6 (Finite 2) = ''2.000000''"
  "format_f 2 (Finite 1500) = ''1500.00''"
  "format_f 6 (Finite 1000) = ''1000.000000''"
  "format_f 2 (Finite 20000) = ''20000.00''"
  "format_f 6 (Finite (1 / 1000)) = ''0.001000''"
  by (simp add: format_f.simps round_half_even_def, simp add: zero_pad_def,
      simp add: str_nat.simps digit_char_def replicate_eval)+

lemmas eval_defs = create_order_def order_params_def u_post_def u_get_def u_sign_def urlencode_def
  quote_plus_def quote_byte_def is_unreserved_def hex_char_def str_int_def digit_char_def
  str_nat.simps format_f_examples format_f.simps(3) format_f.simps(4) format_f.simps(5)
  make_OrderIn_def test_lib_def test_config_def
  world_ok_def world_rejecting_def world_down_def ascii_upper_def upper_char_def
  symbolic_digest_def allowed_symbols_of_def e_acute_def alloc_def

lemma create_order_rejected:
  "order_params lib cfg od = Inl e \<Longrightarrow> create_order lib cfg w od = (Inl e, [])"
  by (simp add: create_order_def)

lemma order_params_400: "order_params lib cfg od = Inl e \<Longrightarrow> \<exists>d. e = HTTPException 400 d"
  by (auto simp: order_params_def Let_def
      split: if_splits order_type.splits side.splits option.splits)

lemma create_order_forwarded:
  assumes "order_params lib cfg od = Inr ps"
  shows "snd (create_order lib cfg w od) =
     [\<lparr>req_method = POST, req_url = BASE_URL cfg @ ''/api/v3/order'',
       req_data = Some (u_sign lib cfg (dict_set ps ''timestamp'' (I (now_ms w)))),
       req_headers = [(''X-MBX-APIKEY'', BINANCE_KEY cfg),
                      (''Content-Type'', ''application/x-www-form-urlencoded'')],
       req_timeout = 15\<rparr>]"
  using assms
  by (simp add: create_order_def u_post_def Let_def split: outcome.splits option.splits)

lemma create_order_calls_imp_accepted:
  "snd (create_order lib cfg w od) \<noteq> [] \<Longrightarrow> \<exists>ps. order_params lib cfg od = Inr ps"
  by (cases "order_params lib cfg od") (simp_all add: create_order_def)

subsection \<open>Rejections never reach the network\<close>

text \<open>
  Claim C2. When the upper-cased symbol of an order is not in the allowed set,
  \<open>create_order\<close> raises \<open>HTTPException(400)\<close> whose detail lists the sorted allowed set,
  and sends no request. More generally every failed check of lines 84 to 111
  raises a 400 and leaves the list of requests empty: a symbol outside the set, a
  missing confirmation, a missing or zero required amount, or a quote amount
  above the maximum.
\<close>

theorem symbol_not_allowed_rejected_without_call:
  "(str_upper lib (symbol od) \<notin> ALLOWED_SYMBOLS cfg \<longrightarrow>
      create_order lib cfg w od =
        (Inl (HTTPException 400
           [Text (''Pair non autoris'' @ e_acute @ ''e. Autoris'' @ e_acute @ ''es: ''),
            ListRepr (sorted_list_of_set (ALLOWED_SYMBOLS cfg))]), [])) \<and>
   (\<forall>e. order_params lib cfg od = Inl e \<longrightarrow>
      create_order lib cfg w od = (Inl e, []) \<and> (\<exists>d. e = HTTPException 400 d)) \<and>
   (str_upper lib (symbol od) \<notin> ALLOWED_SYMBOLS cfg \<or> \<not> confirmed od \<or>
    (otype od = MARKET \<and> side od = BUY \<and> \<not> truthy (quote_amount od)) \<or>
    (otype od = MARKET \<and> side od = BUY \<and>
       (\<exists>x. quote_amount od = Some x \<and> float_gt x (MAX_QUOTE_TRADE_USDT cfg))) \<or>
    (otype od = MARKET \<and> side od = SELL \<and> \<not> truthy (quantity od)) \<or>
    (otype od = LIMIT \<and> \<not> (truthy (quantity od) \<and> truthy (price od)))
    \<longrightarrow> (\<exists>d. create_order lib cfg w od = (Inl (HTTPException 400 d), [])))"
proof (intro conjI allI impI)
  assume "str_upper lib (symbol od) \<notin> ALLOWED_SYMBOLS cfg"
  then show "create_order lib cfg w od =
        (Inl (HTTPException 400
           [Text (''Pair non autoris'' @ e_acute @ ''e. Autoris'' @ e_acute @ ''es: ''),
            ListRepr (sorted_list_of_set (ALLOWED_SYMBOLS cfg))]), [])"
    by (simp add: create_order_def order_params_def)
next
  fix e assume "order_params lib cfg od = Inl e"
  then show "create_order lib cfg w od = (Inl e, [])" by (rule create_order_rejected)
next
  fix e assume "order_params lib cfg od = Inl e"
  then show "\<exists>d. e = HTTPException 400 d" by (rule order_params_400)
next
  assume bad: "str_upper lib (symbol od) \<notin> ALLOWED_SYMBOLS cfg \<or> \<not> confirmed od \<or>
    (otype od = MARKET \<and> side od = BUY \<and> \<not> truthy (quote_amount od)) \<or>
    (otype od = MARKET \<and> side od = BUY \<and>
       (\<exists>x. quote_amount od = Some x \<and> float_gt x (MAX_QUOTE_TRADE_USDT cfg))) \<or>
    (otype od = MARKET \<and> side od = SELL \<and> \<not> truthy (quantity od)) \<or>
    (otype od = LIMIT \<and> \<not> (truthy (quantity od) \<and> truthy (price od)))"
  have "\<exists>e. order_params lib cfg od = Inl e"
    using bad
    by (cases "quote_amount od"; cases "quantity od"; cases "price od")
       (auto simp: order_params_def Let_def)
  then obtain e where e: "order_params lib cfg od = Inl e" ..
  then obtain d where "e = HTTPException 400 d" using order_params_400 by blast
  then show "\<exists>d. create_order lib cfg w od = (Inl (HTTPException 400 d), [])"
    using create_order_rejected[OF e] by blast
qed

theorem symbol_not_allowed_rejected_without_call_witness:
  "str_upper test_lib ''dogeusdt'' \<notin> ALLOWED_SYMBOLS test_config \<and>
   create_order test_lib test_config world_ok
     (make_OrderIn ''dogeusdt'' BUY MARKET (Some (Finite 50)) None None (Some True)) =
   (Inl (HTTPException 400
      [Text (''Pair non autoris'' @ e_acute @ ''e. Autoris'' @ e_acute @ ''es: ''),
       ListRepr [''BTCUSDT'', ''ETHUSDT'']]), []) \<and>
   create_order test_lib test_config world_ok
     (make_OrderIn ''BTCUSDT'' SELL MARKET None None None (Some True)) =
   (Inl (HTTPException 400 [Text ''Pour SELL MARKET, fournir quantity.'']), [])"
proof -
  let ?od = "make_OrderIn ''dogeusdt'' BUY MARKET (Some (Finite 50)) None None (Some True)"
  let ?od2 = "make_OrderIn ''BTCUSDT'' SELL MARKET None None None (Some True)"
  have a: "str_upper test_lib (symbol ?od) \<notin> ALLOWED_SYMBOLS test_config"
    by (simp add: eval_defs)
  have s: "sorted_list_of_set (ALLOWED_SYMBOLS test_config) = [''BTCUSDT'', ''ETHUSDT'']"
    by (simp add: eval_defs)
  have b: "order_params test_lib test_config ?od2 =
      Inl (HTTPException 400 [Text ''Pour SELL MARKET, fournir quantity.''])"
    by (simp add: eval_defs)
  from symbol_not_allowed_rejected_without_call[of test_lib ?od test_config world_ok] a s
    symbol_not_allowed_rejected_without_call[of test_lib ?od2 test_config world_ok] b
  show ?thesis by (simp add: make_OrderIn_def)
qed

text \<open>
  Claim C4. An order whose \<open>confirmed\<close> is false is rejected with
  \<open>HTTPException(400)\<close> and no request, whatever its other fields (the detail is the
  symbol message when the symbol is not allowed, the confirmation message
  otherwise); a request body without the field gives \<open>confirmed = False\<close>; and any
  order for which a request is sent has \<open>confirmed\<close> true.
\<close>

theorem unconfirmed_order_rejected:
  "(\<not> confirmed od \<longrightarrow>
      create_order lib cfg w od =
        (Inl (HTTPException 400
           (if str_upper lib (symbol od) \<notin> ALLOWED_SYMBOLS cfg
            then [Text (''Pair non autoris'' @ e_acute @ ''e. Autoris'' @ e_acute @ ''es: ''),
                  ListRepr (sorted_list_of_set (ALLOWED_SYMBOLS cfg))]
            else [Text ''Confirmation manquante.''])), [])) \<and>
   \<not> confirmed (make_OrderIn sy sd ty qa qt pr None) \<and>
   (snd (create_order lib cfg w od) \<noteq> [] \<longrightarrow> confirmed od)"
proof (intro conjI impI)
  assume "\<not> confirmed od"
  then show "create_order lib cfg w od =
        (Inl (HTTPException 400
           (if str_upper lib (symbol od) \<notin> ALLOWED_SYMBOLS cfg
            then [Text (''Pair non autoris'' @ e_acute @ ''e. Autoris'' @ e_acute @ ''es: ''),
                  ListRepr (sorted_list_of_set (ALLOWED_SYMBOLS cfg))]
            else [Text ''Confirmation manquante.''])), [])"
    by (simp add: create_order_def order_params_def)
next
  show "\<not> confirmed (make_OrderIn sy sd ty qa qt pr None)"
    by (simp add: make_OrderIn_def)
next
  assume "snd (create_order lib cfg w od) \<noteq> []"
  then obtain ps where "order_params lib cfg od = Inr ps"
    using create_order_calls_imp_accepted by blast
  then show "confirmed od"
    by (auto simp: order_params_def Let_def split: if_splits)
qed

theorem unconfirmed_order_rejected_witness:
  "\<not> confirmed (make_OrderIn ''BTCUSDT'' BUY MARKET (Some (Finite 50)) None None None) \<and>
   create_order test_lib test_config world_ok
     (make_OrderIn ''BTCUSDT'' BUY MARKET (Some (Finite 50)) None None None) =
   (Inl (HTTPException 400 [Text ''Confirmation manquante.'']), []) \<and>
   create_order test_lib test_config world_ok
     (make_OrderIn ''BTCUSDT'' SELL LIMIT None (Some (Finite 1)) (Some (Finite 20000))
        (Some False)) =
   (Inl (HTTPException 400 [Text ''Confirmation manquante.'']), []) \<and>
   snd (create_order test_lib test_config world_ok
     (make_OrderIn ''BTCUSDT'' BUY MARKET (Some (Finite 50)) None None (Some True))) \<noteq> [] \<and>
   confirmed (make_OrderIn ''BTCUSDT'' BUY MARKET (Some (Finite 50)) None None (Some True))"
proof -
  let ?od = "make_OrderIn ''BTCUSDT'' BUY MARKET (Some (Finite 50)) None None None"
  let ?od2 = "make_OrderIn ''BTCUSDT'' SELL LIMIT None (Some (Finite 1)) (Some (Finite 20000))
        (Some False)"
  let ?od3 = "make_OrderIn ''BTCUSDT'' BUY MARKET (Some (Finite 50)) None None (Some True)"
  have a: "str_upper test_lib (symbol ?od) \<in> ALLOWED_SYMBOLS test_config"
    "str_upper test_lib (symbol ?od2) \<in> ALLOWED_SYMBOLS test_config"
    by (simp_all add: eval_defs)
  have c: "snd (create_order test_lib test_config world_ok ?od3) \<noteq> []"
    by (simp add: eval_defs)
  from unconfirmed_order_rejected[of ?od test_lib test_config world_ok]
    unconfirmed_order_rejected[of ?od2 test_lib test_config world_ok]
    unconfirmed_order_rejected[of ?od3 test_lib test_config world_ok] a c
  show ?thesis by (simp add: make_OrderIn_def)
qed

subsection \<open>MARKET BUY and the quote amount\<close>

lemma float_eq_not_gt: "float_eq x m \<Longrightarrow> \<not> float_gt x m"
  by (cases x; cases m) simp_all

text \<open>
  Claim C1, as the code has it. For a MARKET BUY order that passed the symbol and
  confirmation checks: a \<open>quote_amount\<close> that is absent or zero is rejected with
  \<open>HTTPException(400)\<close> and no request; a nonzero one strictly greater than
  \<open>MAX_QUOTE_TRADE_USDT\<close> is rejected with a 400 whose detail carries that limit, and
  no request; every other nonzero one, the maximum itself included, is accepted
  and sent as \<open>quoteOrderQty\<close> formatted with \<open>.2f\<close>, which has exactly two decimal
  places whenever the amount is finite.
\<close>

theorem market_buy_quote_amount:
  assumes "str_upper lib (symbol od) \<in> ALLOWED_SYMBOLS cfg" and "confirmed od"
    and "otype od = MARKET" and "side od = BUY"
  shows
   "(\<not> truthy (quote_amount od) \<longrightarrow>
       create_order lib cfg w od =
         (Inl (HTTPException 400 [Text ''Pour BUY MARKET, fournir quote_amount.'']), [])) \<and>
    (\<forall>x. quote_amount od = Some x \<and> float_truthy x \<and>
         float_gt x (MAX_QUOTE_TRADE_USDT cfg) \<longrightarrow>
       create_order lib cfg w od =
         (Inl (HTTPException 400
            [Text ''Montant > limite '', FloatRepr (MAX_QUOTE_TRADE_USDT cfg),
             Text '' USDT.'']), [])) \<and>
    (\<forall>x. quote_amount od = Some x \<and> float_truthy x \<and>
         (float_eq x (MAX_QUOTE_TRADE_USDT cfg) \<or>
          \<not> float_gt x (MAX_QUOTE_TRADE_USDT cfg)) \<longrightarrow>
       order_params lib cfg od =
         Inr [(''symbol'', S (str_upper lib (symbol od))), (''side'', S ''BUY''),
              (''type'', S ''MARKET''), (''quoteOrderQty'', S (format_f 2 x))] \<and>
       map req_data (snd (create_order lib cfg w od)) =
         [Some (u_sign lib cfg
            [(''symbol'', S (str_upper lib (symbol od))), (''side'', S ''BUY''),
             (''type'', S ''MARKET''), (''quoteOrderQty'', S (format_f 2 x)),
             (''timestamp'', I (now_ms w))])] \<and>
       (is_finite x \<longrightarrow> has_decimals 2 (format_f 2 x)))"
proof (intro conjI allI impI)
  assume "\<not> truthy (quote_amount od)"
  then have "order_params lib cfg od =
      Inl (HTTPException 400 [Text ''Pour BUY MARKET, fournir quote_amount.''])"
    using assms by (cases "quote_amount od") (simp_all add: order_params_def)
  then show "create_order lib cfg w od =
      (Inl (HTTPException 400 [Text ''Pour BUY MARKET, fournir quote_amount.'']), [])"
    by (rule create_order_rejected)
next
  fix x
  assume "quote_amount od = Some x \<and> float_truthy x \<and> float_gt x (MAX_QUOTE_TRADE_USDT cfg)"
  then have "order_params lib cfg od =
      Inl (HTTPException 400
        [Text ''Montant > limite '', FloatRepr (MAX_QUOTE_TRADE_USDT cfg), Text '' USDT.''])"
    using assms by (simp add: order_params_def)
  then show "create_order lib cfg w od =
      (Inl (HTTPException 400
        [Text ''Montant > limite '', FloatRepr (MAX_QUOTE_TRADE_USDT cfg), Text '' USDT.'']), [])"
    by (rule create_order_rejected)
next
  fix x
  assume a: "quote_amount od = Some x \<and> float_truthy x \<and>
         (float_eq x (MAX_QUOTE_TRADE_USDT cfg) \<or> \<not> float_gt x (MAX_QUOTE_TRADE_USDT cfg))"
  then have ngt: "\<not> float_gt x (MAX_QUOTE_TRADE_USDT cfg)"
    using float_eq_not_gt by blast
  show ps: "order_params lib cfg od =
         Inr [(''symbol'', S (str_upper lib (symbol od))), (''side'', S ''BUY''),
              (''type'', S ''MARKET''), (''quoteOrderQty'', S (format_f 2 x))]"
    using assms a ngt by (simp add: order_params_def)
  show "map req_data (snd (create_order lib cfg w od)) =
         [Some (u_sign lib cfg
            [(''symbol'', S (str_upper lib (symbol od))), (''side'', S ''BUY''),
             (''type'', S ''MARKET''), (''quoteOrderQty'', S (format_f 2 x)),
             (''timestamp'', I (now_ms w))])]"
    by (simp add: create_order_forwarded[OF ps])
  assume "is_finite x"
  then show "has_decimals 2 (format_f 2 x)"
    by (simp add: format_f_has_decimals)
qed

theorem market_buy_quote_amount_witness:
  "create_order test_lib test_config world_ok
     (make_OrderIn ''BTCUSDT'' BUY MARKET None None None (Some True)) =
     (Inl (HTTPException 400 [Text ''Pour BUY MARKET, fournir quote_amount.'']), []) \<and>
   create_order test_lib test_config world_ok
     (make_OrderIn ''BTCUSDT'' BUY MARKET (Some (Finite 150)) None None (Some True)) =
     (Inl (HTTPException 400
        [Text ''Montant > limite '', FloatRepr (Finite 100), Text '' USDT.'']), []) \<and>
   order_params test_lib test_config
     (make_OrderIn ''BTCUSDT'' BUY MARKET (Some (Finite 100)) None None (Some True)) =
     Inr [(''symbol'', S ''BTCUSDT''), (''side'', S ''BUY''), (''type'', S ''MARKET''),
          (''quoteOrderQty'', S ''100.00'')] \<and>
   map req_data (snd (create_order test_lib test_config world_ok
     (make_OrderIn ''btcusdt'' BUY MARKET (Some (Finite 50)) None None (Some True)))) =
     [Some (u_sign test_lib test_config
        [(''symbol'', S ''BTCUSDT''), (''side'', S ''BUY''), (''type'', S ''MARKET''),
         (''quoteOrderQty'', S ''50.00''), (''timestamp'', I 1700000000000)])] \<and>
   has_decimals 2 (format_f 2 (Finite 50))"
proof -
  let ?o0 = "make_OrderIn ''BTCUSDT'' BUY MARKET None None None (Some True)"
  let ?o150 = "make_OrderIn ''BTCUSDT'' BUY MARKET (Some (Finite 150)) None None (Some True)"
  let ?o100 = "make_OrderIn ''BTCUSDT'' BUY MARKET (Some (Finite 100)) None None (Some True)"
  let ?o50 = "make_OrderIn ''btcusdt'' BUY MARKET (Some (Finite 50)) None None (Some True)"
  have s: "str_upper test_lib ''BTCUSDT'' \<in> ALLOWED_SYMBOLS test_config"
    "str_upper test_lib ''BTCUSDT'' = ''BTCUSDT''"
    "str_upper test_lib ''btcusdt'' = ''BTCUSDT''"
    by (simp_all add: eval_defs)
  have f: "format_f 2 (Finite 100) = ''100.00''" "format_f 2 (Finite 50) = ''50.00''"
    by (simp_all add: eval_defs)
  have h0: "str_upper test_lib (symbol ?o0) \<in> ALLOWED_SYMBOLS test_config" "confirmed ?o0"
    "otype ?o0 = MARKET" "side ?o0 = BUY"
    using s by (simp_all add: make_OrderIn_def)
  have h150: "str_upper test_lib (symbol ?o150) \<in> ALLOWED_SYMBOLS test_config"
    "confirmed ?o150" "otype ?o150 = MARKET" "side ?o150 = BUY"
    using s by (simp_all add: make_OrderIn_def)
  have h100: "str_upper test_lib (symbol ?o100) \<in> ALLOWED_SYMBOLS test_config"
    "confirmed ?o100" "otype ?o100 = MARKET" "side ?o100 = BUY"
    using s by (simp_all add: make_OrderIn_def)
  have h50: "str_upper test_lib (symbol ?o50) \<in> ALLOWED_SYMBOLS test_config"
    "confirmed ?o50" "otype ?o50 = MARKET" "side ?o50 = BUY"
    using s by (simp_all add: make_OrderIn_def)
  have m: "MAX_QUOTE_TRADE_USDT test_config = Finite 100" "now_ms world_ok = 1700000000000"
    by (simp_all add: test_config_def world_ok_def)
  from market_buy_quote_amount[OF h0, of world_ok]
    market_buy_quote_amount[OF h150, of world_ok]
    market_buy_quote_amount[OF h100, of world_ok]
    market_buy_quote_amount[OF h50, of world_ok] s f m
  show ?thesis by (simp add: make_OrderIn_def is_finite_def)
qed

text \<open>
  The check \<open>not o.quote_amount\<close> is a test for presence, not for sign: a negative
  amount is accepted and sent to the exchange, and so is NaN, which \<open>.2f\<close> prints as
  \<open>nan\<close>.
\<close>

theorem market_buy_negative_or_nan_amount_accepted:
  "str_upper test_lib ''BTCUSDT'' \<in> ALLOWED_SYMBOLS test_config \<and>
   \<not> is_positive (Finite (- 5)) \<and>
   create_order test_lib test_config world_ok
     (make_OrderIn ''BTCUSDT'' BUY MARKET (Some (Finite (- 5))) None None (Some True)) =
     (Inr (Exchange_response (Json ''{}'')),
      [\<lparr>req_method = POST, req_url = ''https://testnet.binance.vision/api/v3/order'',
        req_data = Some (''symbol=BTCUSDT&side=BUY&type=MARKET&quoteOrderQty=-5.00'' @
          ''&timestamp=1700000000000&signature=HMAC(s;symbol=BTCUSDT&side=BUY'' @
          ''&type=MARKET&quoteOrderQty=-5.00&timestamp=1700000000000)''),
        req_headers = [(''X-MBX-APIKEY'', ''k''),
                       (''Content-Type'', ''application/x-www-form-urlencoded'')],
        req_timeout = 15\<rparr>]) \<and>
   \<not> is_positive NaN \<and>
   order_params test_lib test_config
     (make_OrderIn ''BTCUSDT'' BUY MARKET (Some NaN) None None (Some True)) =
     Inr [(''symbol'', S ''BTCUSDT''), (''side'', S ''BUY''), (''type'', S ''MARKET''),
          (''quoteOrderQty'', S ''nan'')] \<and>
   \<not> has_decimals 2 ''nan''"
  by (simp add: eval_defs is_positive_def has_decimals_def is_digit_def)

subsection \<open>LIMIT and MARKET SELL\<close>

text \<open>
  Claim C7, as the code has it. For an order that passed the symbol and
  confirmation checks: a LIMIT order, of either side, is rejected with a 400 whose
  detail names \<open>quantity\<close> and \<open>price\<close> when either is absent or zero, and no
  request is sent; otherwise it is accepted and one request is sent, whose signed
  body carries \<open>quantity\<close> formatted by \<open>.6f\<close>, \<open>price\<close> by \<open>.2f\<close> and
  \<open>timeInForce = GTC\<close>. A MARKET SELL order is rejected without a request when
  \<open>quantity\<close> is absent or zero; otherwise one request is sent, whose signed body
  carries \<open>quantity\<close> formatted by \<open>.6f\<close>. The formatted text has exactly 6,
  respectively 2, decimal places whenever the number is finite. Every accepted
  LIMIT order had both amounts and carries \<open>timeInForce = GTC\<close>.
\<close>

theorem limit_and_market_sell_fields:
  assumes "str_upper lib (symbol od) \<in> ALLOWED_SYMBOLS cfg" and "confirmed od"
  shows
   "(otype od = LIMIT \<and> \<not> (truthy (quantity od) \<and> truthy (price od)) \<longrightarrow>
       create_order lib cfg w od =
         (Inl (HTTPException 400 [Text ''Pour LIMIT, fournir quantity et price.'']), [])) \<and>
    (\<forall>q p. otype od = LIMIT \<and> quantity od = Some q \<and> price od = Some p \<and>
         float_truthy q \<and> float_truthy p \<longrightarrow>
       order_params lib cfg od =
         Inr [(''symbol'', S (str_upper lib (symbol od))), (''side'', S (side_str (side od))),
              (''type'', S ''LIMIT''), (''quantity'', S (format_f 6 q)),
              (''price'', S (format_f 2 p)), (''timeInForce'', S ''GTC'')] \<and>
       map req_data (snd (create_order lib cfg w od)) =
         [Some (u_sign lib cfg
            [(''symbol'', S (str_upper lib (symbol od))), (''side'', S (side_str (side od))),
             (''type'', S ''LIMIT''), (''quantity'', S (format_f 6 q)),
             (''price'', S (format_f 2 p)), (''timeInForce'', S ''GTC''),
             (''timestamp'', I (now_ms w))])] \<and>
       (is_finite q \<longrightarrow> has_decimals 6 (format_f 6 q)) \<and>
       (is_finite p \<longrightarrow> has_decimals 2 (format_f 2 p))) \<and>
    (otype od = MARKET \<and> side od = SELL \<and> \<not> truthy (quantity od) \<longrightarrow>
       create_order lib cfg w od =
         (Inl (HTTPException 400 [Text ''Pour SELL MARKET, fournir quantity.'']), [])) \<and>
    (\<forall>q. otype od = MARKET \<and> side od = SELL \<and> quantity od = Some q \<and> float_truthy q \<longrightarrow>
       order_params lib cfg od =
         Inr [(''symbol'', S (str_upper lib (symbol od))), (''side'', S ''SELL''),
              (''type'', S ''MARKET''), (''quantity'', S (format_f 6 q))] \<and>
       map req_data (snd (create_order lib cfg w od)) =
         [Some (u_sign lib cfg
            [(''symbol'', S (str_upper lib (symbol od))), (''side'', S ''SELL''),
             (''type'', S ''MARKET''), (''quantity'', S (format_f 6 q)),
             (''timestamp'', I (now_ms w))])] \<and>
       (is_finite q \<longrightarrow> has_decimals 6 (format_f 6 q))) \<and>
    (\<forall>ps. order_params lib cfg od = Inr ps \<and> otype od = LIMIT \<longrightarrow>
       truthy (quantity od) \<and> truthy (price od) \<and>
       dict_get ps ''timeInForce'' = Some (S ''GTC''))"
proof (intro conjI allI impI)
  assume "otype od = LIMIT \<and> \<not> (truthy (quantity od) \<and> truthy (price od))"
  then have "order_params lib cfg od =
      Inl (HTTPException 400 [Text ''Pour LIMIT, fournir quantity et price.''])"
    using assms by (cases "quantity od"; cases "price od") (auto simp: order_params_def)
  then show "create_order lib cfg w od =
      (Inl (HTTPException 400 [Text ''Pour LIMIT, fournir quantity et price.'']), [])"
    by (rule create_order_rejected)
next
  fix q p
  assume a: "otype od = LIMIT \<and> quantity od = Some q \<and> price od = Some p \<and>
         float_truthy q \<and> float_truthy p"
  show ps: "order_params lib cfg od =
         Inr [(''symbol'', S (str_upper lib (symbol od))), (''side'', S (side_str (side od))),
              (''type'', S ''LIMIT''), (''quantity'', S (format_f 6 q)),
              (''price'', S (format_f 2 p)), (''timeInForce'', S ''GTC'')]"
    using assms a by (simp add: order_params_def)
  show "map req_data (snd (create_order lib cfg w od)) =
         [Some (u_sign lib cfg
            [(''symbol'', S (str_upper lib (symbol od))), (''side'', S (side_str (side od))),
             (''type'', S ''LIMIT''), (''quantity'', S (format_f 6 q)),
             (''price'', S (format_f 2 p)), (''timeInForce'', S ''GTC''),
             (''timestamp'', I (now_ms w))])]"
    by (simp add: create_order_forwarded[OF ps])
  {
    assume "is_finite q"
    then show "has_decimals 6 (format_f 6 q)" by (simp add: format_f_has_decimals)
  }
  {
    assume "is_finite p"
    then show "has_decimals 2 (format_f 2 p)" by (simp add: format_f_has_decimals)
  }
next
  assume "otype od = MARKET \<and> side od = SELL \<and> \<not> truthy (quantity od)"
  then have "order_params lib cfg od =
      Inl (HTTPException 400 [Text ''Pour SELL MARKET, fournir quantity.''])"
    using assms by (cases "quantity od") (auto simp: order_params_def)
  then show "create_order lib cfg w od =
      (Inl (HTTPException 400 [Text ''Pour SELL MARKET, fournir quantity.'']), [])"
    by (rule create_order_rejected)
next
  fix q
  assume a: "otype od = MARKET \<and> side od = SELL \<and> quantity od = Some q \<and> float_truthy q"
  show ps: "order_params lib cfg od =
         Inr [(''symbol'', S (str_upper lib (symbol od))), (''side'', S ''SELL''),
              (''type'', S ''MARKET''), (''quantity'', S (format_f 6 q))]"
    using assms a by (simp add: order_params_def)
  show "map req_data (snd (create_order lib cfg w od)) =
         [Some (u_sign lib cfg
            [(''symbol'', S (str_upper lib (symbol od))), (''side'', S ''SELL''),
             (''type'', S ''MARKET''), (''quantity'', S (format_f 6 q)),
             (''timestamp'', I (now_ms w))])]"
    by (simp add: create_order_forwarded[OF ps])
  assume "is_finite q"
  then show "has_decimals 6 (format_f 6 q)" by (simp add: format_f_has_decimals)
next
  fix ps
  assume a: "order_params lib cfg od = Inr ps \<and> otype od = LIMIT"
  then show "truthy (quantity od)" "truthy (price od)"
    using assms
    by (cases "quantity od"; cases "price od";
        auto simp: order_params_def split: if_splits)+
  show "dict_get ps ''timeInForce'' = Some (S ''GTC'')"
    using assms a
    by (cases "quantity od"; cases "price od")
       (auto simp: order_params_def split: if_splits)
qed

theorem limit_and_market_sell_fields_witness:
  "create_order test_lib test_config world_ok
     (make_OrderIn ''ETHUSDT'' BUY LIMIT None (Some (Finite 2)) None (Some True)) =
     (Inl (HTTPException 400 [Text ''Pour LIMIT, fournir quantity et price.'']), []) \<and>
   order_params test_lib test_config
     (make_OrderIn ''ETHUSDT'' BUY LIMIT None (Some (Finite 2)) (Some (Finite 1500))
        (Some True)) =
     Inr [(''symbol'', S ''ETHUSDT''), (''side'', S ''BUY''), (''type'', S ''LIMIT''),
          (''quantity'', S ''2.000000''), (''price'', S ''1500.00''),
          (''timeInForce'', S ''GTC'')] \<and>
   map req_data (snd (create_order test_lib test_config world_ok
     (make_OrderIn ''ETHUSDT'' BUY LIMIT None (Some (Finite 2)) (Some (Finite 1500))
        (Some True)))) =
     [Some (u_sign test_lib test_config
        [(''symbol'', S ''ETHUSDT''), (''side'', S ''BUY''), (''type'', S ''LIMIT''),
         (''quantity'', S ''2.000000''), (''price'', S ''1500.00''),
         (''timeInForce'', S ''GTC''), (''timestamp'', I 1700000000000)])] \<and>
   has_decimals 6 ''2.000000'' \<and> has_decimals 2 ''1500.00'' \<and>
   create_order test_lib test_config world_ok
     (make_OrderIn ''ETHUSDT'' SELL MARKET None None None (Some True)) =
     (Inl (HTTPException 400 [Text ''Pour SELL MARKET, fournir quantity.'']), []) \<and>
   order_params test_lib test_config
     (make_OrderIn ''ETHUSDT'' SELL MARKET None (Some (Finite 2)) None (Some True)) =
     Inr [(''symbol'', S ''ETHUSDT''), (''side'', S ''SELL''), (''type'', S ''MARKET''),
          (''quantity'', S ''2.000000'')] \<and>
   map req_data (snd (create_order test_lib test_config world_ok
     (make_OrderIn ''ETHUSDT'' SELL MARKET None (Some (Finite 2)) None (Some True)))) =
     [Some (u_sign test_lib test_config
        [(''symbol'', S ''ETHUSDT''), (''side'', S ''SELL''), (''type'', S ''MARKET''),
         (''quantity'', S ''2.000000''), (''timestamp'', I 1700000000000)])]"
proof -
  let ?l0 = "make_OrderIn ''ETHUSDT'' BUY LIMIT None (Some (Finite 2)) None (Some True)"
  let ?l1 = "make_OrderIn ''ETHUSDT'' BUY LIMIT None (Some (Finite 2)) (Some (Finite 1500))
        (Some True)"
  let ?s0 = "make_OrderIn ''ETHUSDT'' SELL MARKET None None None (Some True)"
  let ?s1 = "make_OrderIn ''ETHUSDT'' SELL MARKET None (Some (Finite 2)) None (Some True)"
  have s: "str_upper test_lib ''ETHUSDT'' \<in> ALLOWED_SYMBOLS test_config"
    "str_upper test_lib ''ETHUSDT'' = ''ETHUSDT''"
    by (simp_all add: eval_defs)
  have f: "format_f 6 (Finite 2) = ''2.000000''" "format_f 2 (Finite 1500) = ''1500.00''"
    by (simp_all add: eval_defs)
  have n: "now_ms world_ok = 1700000000000" by (simp add: world_ok_def)
  have hl0: "str_upper test_lib (symbol ?l0) \<in> ALLOWED_SYMBOLS test_config" "confirmed ?l0"
    using s by (simp_all add: make_OrderIn_def)
  have hl1: "str_upper test_lib (symbol ?l1) \<in> ALLOWED_SYMBOLS test_config" "confirmed ?l1"
    using s by (simp_all add: make_OrderIn_def)
  have hs0: "str_upper test_lib (symbol ?s0) \<in> ALLOWED_SYMBOLS test_config" "confirmed ?s0"
    using s by (simp_all add: make_OrderIn_def)
  have hs1: "str_upper test_lib (symbol ?s1) \<in> ALLOWED_SYMBOLS test_config" "confirmed ?s1"
    using s by (simp_all add: make_OrderIn_def)
  from limit_and_market_sell_fields[OF hl0, of world_ok]
    limit_and_market_sell_fields[OF hl1, of world_ok]
    limit_and_market_sell_fields[OF hs0, of world_ok]
    limit_and_market_sell_fields[OF hs1, of world_ok] s f n
  show ?thesis by (simp add: make_OrderIn_def is_finite_def)
qed

text \<open>
  An infinite or NaN amount is truthy, passes the checks and is formatted as the
  word \<open>inf\<close> or \<open>nan\<close>, which has no decimal places.
\<close>

theorem limit_infinite_quantity_forwarded:
  "order_params test_lib test_config
     (make_OrderIn ''ETHUSDT'' BUY LIMIT None (Some PosInf) (Some NaN) (Some True)) =
     Inr [(''symbol'', S ''ETHUSDT''), (''side'', S ''BUY''), (''type'', S ''LIMIT''),
          (''quantity'', S ''inf''), (''price'', S ''nan''), (''timeInForce'', S ''GTC'')] \<and>
   \<not> has_decimals 6 ''inf'' \<and> \<not> has_decimals 2 ''nan'' \<and>
   create_order test_lib test_config world_ok
     (make_OrderIn ''ETHUSDT'' SELL MARKET None (Some PosInf) None (Some True)) =
     (Inr (Exchange_response (Json ''{}'')),
      [\<lparr>req_method = POST, req_url = ''https://testnet.binance.vision/api/v3/order'',
        req_data = Some (''symbol=ETHUSDT&side=SELL&type=MARKET&quantity=inf'' @
          ''&timestamp=1700000000000&signature=HMAC(s;symbol=ETHUSDT&side=SELL'' @
          ''&type=MARKET&quantity=inf&timestamp=1700000000000)''),
        req_headers = [(''X-MBX-APIKEY'', ''k''),
                       (''Content-Type'', ''application/x-www-form-urlencoded'')],
        req_timeout = 15\<rparr>])"
  by (simp add: eval_defs has_decimals_def is_digit_def)

subsection \<open>The cap is checked on MARKET BUY only\<close>

text \<open>
  Claim C9, as the code has it. A confirmed order on an allowed symbol that is a
  LIMIT order with \<open>quantity\<close> and \<open>price\<close> present and nonzero, or a MARKET SELL
  order with \<open>quantity\<close> present and nonzero, is sent to the exchange with the same
  parameters whatever the value of \<open>MAX_QUOTE_TRADE_USDT\<close>: no cap is checked.
\<close>

theorem cap_not_applied_to_limit_or_sell:
  assumes "str_upper lib (symbol od) \<in> ALLOWED_SYMBOLS cfg" and "confirmed od"
    and "(otype od = LIMIT \<and> truthy (quantity od) \<and> truthy (price od)) \<or>
         (otype od = MARKET \<and> side od = SELL \<and> truthy (quantity od))"
  shows "\<exists>ps. \<forall>m.
     order_params lib (cfg\<lparr>MAX_QUOTE_TRADE_USDT := m\<rparr>) od = Inr ps \<and>
     map req_data (snd (create_order lib (cfg\<lparr>MAX_QUOTE_TRADE_USDT := m\<rparr>) w od)) =
       [Some (u_sign lib cfg (dict_set ps ''timestamp'' (I (now_ms w))))]"
proof -
  have "\<exists>ps. \<forall>m. order_params lib (cfg\<lparr>MAX_QUOTE_TRADE_USDT := m\<rparr>) od = Inr ps"
    using assms
    by (cases "quantity od"; cases "price od") (auto simp: order_params_def)
  then obtain ps where ps: "\<And>m. order_params lib (cfg\<lparr>MAX_QUOTE_TRADE_USDT := m\<rparr>) od = Inr ps"
    by blast
  show ?thesis
  proof (intro exI allI conjI)
    fix m
    show "order_params lib (cfg\<lparr>MAX_QUOTE_TRADE_USDT := m\<rparr>) od = Inr ps" by (rule ps)
    show "map req_data (snd (create_order lib (cfg\<lparr>MAX_QUOTE_TRADE_USDT := m\<rparr>) w od)) =
       [Some (u_sign lib cfg (dict_set ps ''timestamp'' (I (now_ms w))))]"
      unfolding create_order_forwarded[OF ps] by (simp add: u_sign_def)
  qed
qed

theorem cap_not_applied_to_limit_or_sell_witness:
  "\<forall>m. map req_data (snd (create_order test_lib (test_config\<lparr>MAX_QUOTE_TRADE_USDT := m\<rparr>)
     world_ok
     (make_OrderIn ''BTCUSDT'' BUY LIMIT None (Some (Finite 1000)) (Some (Finite 20000))
        (Some True)))) =
     [Some (u_sign test_lib test_config
        [(''symbol'', S ''BTCUSDT''), (''side'', S ''BUY''), (''type'', S ''LIMIT''),
         (''quantity'', S ''1000.000000''), (''price'', S ''20000.00''),
         (''timeInForce'', S ''GTC''), (''timestamp'', I 1700000000000)])]"
proof -
  let ?od = "make_OrderIn ''BTCUSDT'' BUY LIMIT None (Some (Finite 1000)) (Some (Finite 20000))
        (Some True)"
  have h: "str_upper test_lib (symbol ?od) \<in> ALLOWED_SYMBOLS test_config" "confirmed ?od"
    "(otype ?od = LIMIT \<and> truthy (quantity ?od) \<and> truthy (price ?od)) \<or>
     (otype ?od = MARKET \<and> side ?od = SELL \<and> truthy (quantity ?od))"
    by (simp_all add: eval_defs)
  have p: "order_params test_lib (test_config\<lparr>MAX_QUOTE_TRADE_USDT := Finite 0\<rparr>) ?od =
      Inr [(''symbol'', S ''BTCUSDT''), (''side'', S ''BUY''), (''type'', S ''LIMIT''),
         (''quantity'', S ''1000.000000''), (''price'', S ''20000.00''),
         (''timeInForce'', S ''GTC'')]"
    by (simp add: eval_defs)
  from cap_not_applied_to_limit_or_sell[OF h, of world_ok] obtain ps where ps:
    "\<And>m. order_params test_lib (test_config\<lparr>MAX_QUOTE_TRADE_USDT := m\<rparr>) ?od = Inr ps \<and>
      map req_data (snd (create_order test_lib (test_config\<lparr>MAX_QUOTE_TRADE_USDT := m\<rparr>)
        world_ok ?od)) =
      [Some (u_sign test_lib test_config (dict_set ps ''timestamp'' (I (now_ms world_ok))))]"
    by blast
  have n: "now_ms world_ok = 1700000000000" by (simp add: world_ok_def)
  from ps[of "Finite 0"] p have e: "ps = [(''symbol'', S ''BTCUSDT''), (''side'', S ''BUY''),
      (''type'', S ''LIMIT''), (''quantity'', S ''1000.000000''), (''price'', S ''20000.00''),
      (''timeInForce'', S ''GTC'')]" by simp
  show ?thesis
  proof
    fix m
    from ps[of m] show "map req_data (snd (create_order test_lib
        (test_config\<lparr>MAX_QUOTE_TRADE_USDT := m\<rparr>) world_ok ?od)) =
      [Some (u_sign test_lib test_config
        [(''symbol'', S ''BTCUSDT''), (''side'', S ''BUY''), (''type'', S ''LIMIT''),
         (''quantity'', S ''1000.000000''), (''price'', S ''20000.00''),
         (''timeInForce'', S ''GTC''), (''timestamp'', I 1700000000000)])]"
      unfolding e n by simp
  qed
qed

text \<open>
  An amount that is present but zero is falsy: such a LIMIT or MARKET SELL order
  is rejected, not forwarded.
\<close>

theorem limit_zero_quantity_rejected:
  "quantity (make_OrderIn ''BTCUSDT'' BUY LIMIT None (Some (Finite 0)) (Some (Finite 20000))
     (Some True)) \<noteq> None \<and>
   price (make_OrderIn ''BTCUSDT'' BUY LIMIT None (Some (Finite 0)) (Some (Finite 20000))
     (Some True)) \<noteq> None \<and>
   create_order test_lib test_config world_ok
     (make_OrderIn ''BTCUSDT'' BUY LIMIT None (Some (Finite 0)) (Some (Finite 20000))
        (Some True)) =
     (Inl (HTTPException 400 [Text ''Pour LIMIT, fournir quantity et price.'']), []) \<and>
   quantity (make_OrderIn ''BTCUSDT'' SELL MARKET None (Some (Finite 0)) None (Some True))
     \<noteq> None \<and>
   create_order test_lib test_config world_ok
     (make_OrderIn ''BTCUSDT'' SELL MARKET None (Some (Finite 0)) None (Some True)) =
     (Inl (HTTPException 400 [Text ''Pour SELL MARKET, fournir quantity.'']), [])"
  by (simp add: eval_defs)

subsection \<open>What one call of the exchange client returns\<close>

lemma u_get_sends_once:
  "\<exists>rq. snd (snd (u_get lib cfg w h path params signed)) = [rq] \<and>
     req_method rq = GET \<and> req_timeout rq = 15 \<and>
     fst (u_get lib cfg w h path params signed) =
       (case transport w rq of
          Failure e \<Rightarrow> Inl (HttpxError e)
        | Response c t \<Rightarrow>
            if 400 \<le> c then Inl (HTTPException c [Text t])
            else (case json_loads lib t of None \<Rightarrow> Inl JSONDecodeError | Some j \<Rightarrow> Inr j))"
proof -
  have "\<exists>rq h2. u_get lib cfg w h path params signed =
     (case transport w rq of
        Failure e \<Rightarrow> (Inl (HttpxError e), h2, [rq])
      | Response c t \<Rightarrow>
          if 400 \<le> c then (Inl (HTTPException c [Text t]), h2, [rq])
          else (case json_loads lib t of
                  None \<Rightarrow> (Inl JSONDecodeError, h2, [rq])
                | Some j \<Rightarrow> (Inr j, h2, [rq]))) \<and>
     req_method rq = GET \<and> req_timeout rq = 15"
    unfolding u_get_def Let_def split_def
    apply (intro exI conjI)
      apply (rule refl)
     apply simp_all
    done
  then obtain rq h2 where s: "u_get lib cfg w h path params signed =
     (case transport w rq of
        Failure e \<Rightarrow> (Inl (HttpxError e), h2, [rq])
      | Response c t \<Rightarrow>
          if 400 \<le> c then (Inl (HTTPException c [Text t]), h2, [rq])
          else (case json_loads lib t of
                  None \<Rightarrow> (Inl JSONDecodeError, h2, [rq])
                | Some j \<Rightarrow> (Inr j, h2, [rq])))"
    and m: "req_method rq = GET" "req_timeout rq = 15"
    by blast
  have "snd (snd (u_get lib cfg w h path params signed)) = [rq]"
    unfolding s by (simp split: outcome.splits option.splits)
  moreover have "fst (u_get lib cfg w h path params signed) =
       (case transport w rq of
          Failure e \<Rightarrow> Inl (HttpxError e)
        | Response c t \<Rightarrow>
            if 400 \<le> c then Inl (HTTPException c [Text t])
            else (case json_loads lib t of None \<Rightarrow> Inl JSONDecodeError | Some j \<Rightarrow> Inr j))"
    unfolding s by (simp split: outcome.splits option.splits)
  ultimately show ?thesis using m by blast
qed

lemma u_post_sends_once:
  "\<exists>rq. snd (snd (u_post lib cfg w h path r signed)) = [rq] \<and>
     req_method rq = POST \<and> req_timeout rq = 15 \<and>
     fst (u_post lib cfg w h path r signed) =
       (case transport w rq of
          Failure e \<Rightarrow> Inl (HttpxError e)
        | Response c t \<Rightarrow>
            if 400 \<le> c then Inl (HTTPException c [Text t])
            else if t \<noteq> [] then
              (case json_loads lib t of
                 None \<Rightarrow> Inl JSONDecodeError | Some j \<Rightarrow> Inr (Json j))
            else Inr Ok_True)"
proof -
  have "\<exists>rq h2. u_post lib cfg w h path r signed =
     (case transport w rq of
        Failure e \<Rightarrow> (Inl (HttpxError e), h2, [rq])
      | Response c t \<Rightarrow>
          if 400 \<le> c then (Inl (HTTPException c [Text t]), h2, [rq])
          else if t \<noteq> [] then
            (case json_loads lib t of
               None \<Rightarrow> (Inl JSONDecodeError, h2, [rq])
             | Some j \<Rightarrow> (Inr (Json j), h2, [rq]))
          else (Inr Ok_True, h2, [rq])) \<and>
     req_method rq = POST \<and> req_timeout rq = 15"
    unfolding u_post_def Let_def
    apply (intro exI conjI)
      apply (rule refl)
     apply simp_all
    done
  then obtain rq h2 where s: "u_post lib cfg w h path r signed =
     (case transport w rq of
        Failure e \<Rightarrow> (Inl (HttpxError e), h2, [rq])
      | Response c t \<Rightarrow>
          if 400 \<le> c then (Inl (HTTPException c [Text t]), h2, [rq])
          else if t \<noteq> [] then
            (case json_loads lib t of
               None \<Rightarrow> (Inl JSONDecodeError, h2, [rq])
             | Some j \<Rightarrow> (Inr (Json j), h2, [rq]))
          else (Inr Ok_True, h2, [rq]))"
    and m: "req_method rq = POST" "req_timeout rq = 15"
    by blast
  have "snd (snd (u_post lib cfg w h path r signed)) = [rq]"
    unfolding s by (simp split: outcome.splits option.splits)
  moreover have "fst (u_post lib cfg w h path r signed) =
       (case transport w rq of
          Failure e \<Rightarrow> Inl (HttpxError e)
        | Response c t \<Rightarrow>
            if 400 \<le> c then Inl (HTTPException c [Text t])
            else if t \<noteq> [] then
              (case json_loads lib t of
                 None \<Rightarrow> Inl JSONDecodeError | Some j \<Rightarrow> Inr (Json j))
            else Inr Ok_True)"
    unfolding s by (simp split: outcome.splits option.splits)
  ultimately show ?thesis using m by blast
qed

lemma create_order_sends_once:
  assumes "order_params lib cfg od = Inr ps"
  shows "\<exists>rq. snd (create_order lib cfg w od) = [rq] \<and>
     req_method rq = POST \<and> req_timeout rq = 15 \<and>
     fst (create_order lib cfg w od) =
       (case transport w rq of
          Failure e \<Rightarrow> Inl (HttpxError e)
        | Response c t \<Rightarrow>
            if 400 \<le> c then Inl (HTTPException c [Text t])
            else if t \<noteq> [] then
              (case json_loads lib t of
                 None \<Rightarrow> Inl JSONDecodeError
               | Some j \<Rightarrow> Inr (Exchange_response (Json j)))
            else Inr (Exchange_response Ok_True))"
proof -
  obtain rq where rq: "snd (snd (u_post lib cfg w [ps] ''/api/v3/order'' 0 True)) = [rq]"
    "req_method rq = POST" "req_timeout rq = 15"
    "fst (u_post lib cfg w [ps] ''/api/v3/order'' 0 True) =
       (case transport w rq of
          Failure e \<Rightarrow> Inl (HttpxError e)
        | Response c t \<Rightarrow>
            if 400 \<le> c then Inl (HTTPException c [Text t])
            else if t \<noteq> [] then
              (case json_loads lib t of
                 None \<Rightarrow> Inl JSONDecodeError | Some j \<Rightarrow> Inr (Json j))
            else Inr Ok_True)"
    using u_post_sends_once by blast
  obtain res h2 calls where u: "u_post lib cfg w [ps] ''/api/v3/order'' 0 True = (res, h2, calls)"
    by (cases "u_post lib cfg w [ps] ''/api/v3/order'' 0 True") auto
  have c: "create_order lib cfg w od =
     (case res of Inl e \<Rightarrow> (Inl e, calls) | Inr result \<Rightarrow> (Inr (Exchange_response result), calls))"
    by (simp add: create_order_def assms u split: sum.splits)
  have calls: "calls = [rq]" using rq(1) u by simp
  have res: "res = (case transport w rq of
          Failure e \<Rightarrow> Inl (HttpxError e)
        | Response c t \<Rightarrow>
            if 400 \<le> c then Inl (HTTPException c [Text t])
            else if t \<noteq> [] then
              (case json_loads lib t of
                 None \<Rightarrow> Inl JSONDecodeError | Some j \<Rightarrow> Inr (Json j))
            else Inr Ok_True)"
    using rq(4) u by simp
  have "snd (create_order lib cfg w od) = [rq]"
    unfolding c calls by (simp split: sum.splits)
  moreover have "fst (create_order lib cfg w od) =
       (case transport w rq of
          Failure e \<Rightarrow> Inl (HttpxError e)
        | Response c t \<Rightarrow>
            if 400 \<le> c then Inl (HTTPException c [Text t])
            else if t \<noteq> [] then
              (case json_loads lib t of
                 None \<Rightarrow> Inl JSONDecodeError
               | Some j \<Rightarrow> Inr (Exchange_response (Json j)))
            else Inr (Exchange_response Ok_True))"
    unfolding c res by (simp split: outcome.splits option.splits)
  ultimately show ?thesis using rq(2,3) by blast
qed

subsection \<open>Errors of the exchange client\<close>

text \<open>
  Claim C6. \<open>_get\<close> and \<open>_post\<close> each send exactly one request. When the response
  to it has a status code of 400 or more, the call raises \<open>HTTPException\<close> with
  exactly that status code and the response text as its detail; and every
  \<open>HTTPException\<close> the two raise is of that kind: its status code is the upstream's,
  400 or more, and its detail is the upstream's text.
\<close>

theorem upstream_status_and_body_verbatim:
  "(\<exists>rq. snd (snd (u_get lib cfg w h path params signed)) = [rq] \<and> req_method rq = GET \<and>
      (\<forall>c t. transport w rq = Response c t \<and> 400 \<le> c \<longrightarrow>
         fst (u_get lib cfg w h path params signed) = Inl (HTTPException c [Text t])) \<and>
      (\<forall>c d. fst (u_get lib cfg w h path params signed) = Inl (HTTPException c d) \<longrightarrow>
         400 \<le> c \<and> (\<exists>t. transport w rq = Response c t \<and> d = [Text t]))) \<and>
   (\<exists>rq. snd (snd (u_post lib cfg w h' path' r signed')) = [rq] \<and> req_method rq = POST \<and>
      (\<forall>c t. transport w rq = Response c t \<and> 400 \<le> c \<longrightarrow>
         fst (u_post lib cfg w h' path' r signed') = Inl (HTTPException c [Text t])) \<and>
      (\<forall>c d. fst (u_post lib cfg w h' path' r signed') = Inl (HTTPException c d) \<longrightarrow>
         400 \<le> c \<and> (\<exists>t. transport w rq = Response c t \<and> d = [Text t])))"
proof (rule conjI)
  obtain rq where rq: "snd (snd (u_get lib cfg w h path params signed)) = [rq]"
    "req_method rq = GET"
    and res: "fst (u_get lib cfg w h path params signed) =
       (case transport w rq of
          Failure e \<Rightarrow> Inl (HttpxError e)
        | Response c t \<Rightarrow>
            if 400 \<le> c then Inl (HTTPException c [Text t])
            else (case json_loads lib t of None \<Rightarrow> Inl JSONDecodeError | Some j \<Rightarrow> Inr j))"
    using u_get_sends_once by blast
  have a: "\<forall>c t. transport w rq = Response c t \<and> 400 \<le> c \<longrightarrow>
         fst (u_get lib cfg w h path params signed) = Inl (HTTPException c [Text t])"
    unfolding res by simp
  have b: "\<forall>c d. fst (u_get lib cfg w h path params signed) = Inl (HTTPException c d) \<longrightarrow>
         400 \<le> c \<and> (\<exists>t. transport w rq = Response c t \<and> d = [Text t])"
    unfolding res by (cases "transport w rq") (auto split: if_splits option.splits)
  from rq a b show "\<exists>rq. snd (snd (u_get lib cfg w h path params signed)) = [rq] \<and>
      req_method rq = GET \<and>
      (\<forall>c t. transport w rq = Response c t \<and> 400 \<le> c \<longrightarrow>
         fst (u_get lib cfg w h path params signed) = Inl (HTTPException c [Text t])) \<and>
      (\<forall>c d. fst (u_get lib cfg w h path params signed) = Inl (HTTPException c d) \<longrightarrow>
         400 \<le> c \<and> (\<exists>t. transport w rq = Response c t \<and> d = [Text t]))"
    by blast
next
  obtain rq where rq: "snd (snd (u_post lib cfg w h' path' r signed')) = [rq]"
    "req_method rq = POST"
    and res: "fst (u_post lib cfg w h' path' r signed') =
       (case transport w rq of
          Failure e \<Rightarrow> Inl (HttpxError e)
        | Response c t \<Rightarrow>
            if 400 \<le> c then Inl (HTTPException c [Text t])
            else if t \<noteq> [] then
              (case json_loads lib t of
                 None \<Rightarrow> Inl JSONDecodeError | Some j \<Rightarrow> Inr (Json j))
            else Inr Ok_True)"
    using u_post_sends_once by blast
  have a: "\<forall>c t. transport w rq = Response c t \<and> 400 \<le> c \<longrightarrow>
         fst (u_post lib cfg w h' path' r signed') = Inl (HTTPException c [Text t])"
    unfolding res by simp
  have b: "\<forall>c d. fst (u_post lib cfg w h' path' r signed') = Inl (HTTPException c d) \<longrightarrow>
         400 \<le> c \<and> (\<exists>t. transport w rq = Response c t \<and> d = [Text t])"
    unfolding res by (cases "transport w rq") (auto split: if_splits option.splits)
  from rq a b show "\<exists>rq. snd (snd (u_post lib cfg w h' path' r signed')) = [rq] \<and>
      req_method rq = POST \<and>
      (\<forall>c t. transport w rq = Response c t \<and> 400 \<le> c \<longrightarrow>
         fst (u_post lib cfg w h' path' r signed') = Inl (HTTPException c [Text t])) \<and>
      (\<forall>c d. fst (u_post lib cfg w h' path' r signed') = Inl (HTTPException c d) \<longrightarrow>
         400 \<le> c \<and> (\<exists>t. transport w rq = Response c t \<and> d = [Text t]))"
    by blast
qed

theorem upstream_status_and_body_verbatim_witness:
  "fst (u_get test_lib test_config world_rejecting [] ''/api/v3/account'' None True) =
     Inl (HTTPException 418 [Text ''IP banned'']) \<and>
   length (snd (snd (u_get test_lib test_config world_rejecting [] ''/api/v3/account''
     None True))) = 1 \<and>
   fst (u_post test_lib test_config world_rejecting [[(''symbol'', S ''BTCUSDT'')]]
          ''/api/v3/order'' 0 True) =
     Inl (HTTPException 418 [Text ''IP banned'']) \<and>
   length (snd (snd (u_post test_lib test_config world_rejecting
     [[(''symbol'', S ''BTCUSDT'')]] ''/api/v3/order'' 0 True))) = 1"
proof -
  note t = upstream_status_and_body_verbatim[where lib = test_lib and cfg = test_config
      and w = world_rejecting and h = "[]" and path = "''/api/v3/account''"
      and params = None and signed = True
      and h' = "[[(''symbol'', S ''BTCUSDT'')]]" and path' = "''/api/v3/order''" and r = 0
      and signed' = True]
  have r: "transport world_rejecting rq = Response 418 ''IP banned''" for rq
    by (simp add: world_rejecting_def)
  from t obtain rq where g: "snd (snd (u_get test_lib test_config world_rejecting []
      ''/api/v3/account'' None True)) = [rq]"
    and gr: "\<forall>c t. transport world_rejecting rq = Response c t \<and> 400 \<le> c \<longrightarrow>
      fst (u_get test_lib test_config world_rejecting [] ''/api/v3/account'' None True) =
        Inl (HTTPException c [Text t])"
    by blast
  from t obtain rq' where p: "snd (snd (u_post test_lib test_config world_rejecting
      [[(''symbol'', S ''BTCUSDT'')]] ''/api/v3/order'' 0 True)) = [rq']"
    and pr: "\<forall>c t. transport world_rejecting rq' = Response c t \<and> 400 \<le> c \<longrightarrow>
      fst (u_post test_lib test_config world_rejecting [[(''symbol'', S ''BTCUSDT'')]]
        ''/api/v3/order'' 0 True) = Inl (HTTPException c [Text t])"
    by blast
  have "fst (u_get test_lib test_config world_rejecting [] ''/api/v3/account'' None True) =
      Inl (HTTPException 418 [Text ''IP banned''])"
    using gr r[of rq] by simp
  moreover have "fst (u_post test_lib test_config world_rejecting
      [[(''symbol'', S ''BTCUSDT'')]] ''/api/v3/order'' 0 True) =
      Inl (HTTPException 418 [Text ''IP banned''])"
    using pr r[of rq'] by simp
  ultimately show ?thesis using g p by simp
qed

text \<open>
  Claim C5. \<open>_get\<close> and \<open>_post\<close> each send exactly one request, with a timeout of
  15, and so does \<open>create_order\<close> for an order that passed its checks. When that
  request times out or cannot connect, the call raises the transport's own
  exception, which is no \<open>HTTPException\<close>, the class that carries the rejections
  of the exchange (status 400 and above) and the validation errors (status 400);
  and the transport's exception is raised in no other case: not for a response
  of the exchange, and not for an order that fails a check.
\<close>

theorem unreachable_exchange_raises_transport_error:
  "(\<exists>rq. snd (snd (u_get lib cfg w h path params signed)) = [rq] \<and> req_timeout rq = 15 \<and>
      (\<forall>e. transport w rq = Failure e \<longrightarrow>
         fst (u_get lib cfg w h path params signed) = Inl (HttpxError e) \<and>
         (\<forall>c d. fst (u_get lib cfg w h path params signed) \<noteq> Inl (HTTPException c d))) \<and>
      (\<forall>e. fst (u_get lib cfg w h path params signed) = Inl (HttpxError e) \<longrightarrow>
         transport w rq = Failure e)) \<and>
   (\<exists>rq. snd (snd (u_post lib cfg w h' path' r signed')) = [rq] \<and> req_timeout rq = 15 \<and>
      (\<forall>e. transport w rq = Failure e \<longrightarrow>
         fst (u_post lib cfg w h' path' r signed') = Inl (HttpxError e) \<and>
         (\<forall>c d. fst (u_post lib cfg w h' path' r signed') \<noteq> Inl (HTTPException c d))) \<and>
      (\<forall>e. fst (u_post lib cfg w h' path' r signed') = Inl (HttpxError e) \<longrightarrow>
         transport w rq = Failure e)) \<and>
   (\<forall>ps. order_params lib cfg od = Inr ps \<longrightarrow>
      (\<exists>rq. snd (create_order lib cfg w od) = [rq] \<and> req_timeout rq = 15 \<and>
         (\<forall>e. transport w rq = Failure e \<longrightarrow>
            fst (create_order lib cfg w od) = Inl (HttpxError e) \<and>
            (\<forall>c d. fst (create_order lib cfg w od) \<noteq> Inl (HTTPException c d))) \<and>
         (\<forall>e. fst (create_order lib cfg w od) = Inl (HttpxError e) \<longrightarrow>
            transport w rq = Failure e))) \<and>
   (\<forall>x. order_params lib cfg od = Inl x \<longrightarrow>
      (\<forall>e. fst (create_order lib cfg w od) \<noteq> Inl (HttpxError e)))"
proof (intro conjI allI impI)
  obtain rq where rq: "snd (snd (u_get lib cfg w h path params signed)) = [rq]"
    "req_timeout rq = 15"
    and res: "fst (u_get lib cfg w h path params signed) =
       (case transport w rq of
          Failure e \<Rightarrow> Inl (HttpxError e)
        | Response c t \<Rightarrow>
            if 400 \<le> c then Inl (HTTPException c [Text t])
            else (case json_loads lib t of None \<Rightarrow> Inl JSONDecodeError | Some j \<Rightarrow> Inr j))"
    using u_get_sends_once by blast
  have a: "\<forall>e. transport w rq = Failure e \<longrightarrow>
         fst (u_get lib cfg w h path params signed) = Inl (HttpxError e) \<and>
         (\<forall>c d. fst (u_get lib cfg w h path params signed) \<noteq> Inl (HTTPException c d))"
    unfolding res by simp
  have b: "\<forall>e. fst (u_get lib cfg w h path params signed) = Inl (HttpxError e) \<longrightarrow>
         transport w rq = Failure e"
    unfolding res by (cases "transport w rq") (auto split: if_splits option.splits)
  from rq a b show "\<exists>rq. snd (snd (u_get lib cfg w h path params signed)) = [rq] \<and>
      req_timeout rq = 15 \<and>
      (\<forall>e. transport w rq = Failure e \<longrightarrow>
         fst (u_get lib cfg w h path params signed) = Inl (HttpxError e) \<and>
         (\<forall>c d. fst (u_get lib cfg w h path params signed) \<noteq> Inl (HTTPException c d))) \<and>
      (\<forall>e. fst (u_get lib cfg w h path params signed) = Inl (HttpxError e) \<longrightarrow>
         transport w rq = Failure e)"
    by blast
next
  obtain rq where rq: "snd (snd (u_post lib cfg w h' path' r signed')) = [rq]"
    "req_timeout rq = 15"
    and res: "fst (u_post lib cfg w h' path' r signed') =
       (case transport w rq of
          Failure e \<Rightarrow> Inl (HttpxError e)
        | Response c t \<Rightarrow>
            if 400 \<le> c then Inl (HTTPException c [Text t])
            else if t \<noteq> [] then
              (case json_loads lib t of
                 None \<Rightarrow> Inl JSONDecodeError | Some j \<Rightarrow> Inr (Json j))
            else Inr Ok_True)"
    using u_post_sends_once by blast
  have a: "\<forall>e. transport w rq = Failure e \<longrightarrow>
         fst (u_post lib cfg w h' path' r signed') = Inl (HttpxError e) \<and>
         (\<forall>c d. fst (u_post lib cfg w h' path' r signed') \<noteq> Inl (HTTPException c d))"
    unfolding res by simp
  have b: "\<forall>e. fst (u_post lib cfg w h' path' r signed') = Inl (HttpxError e) \<longrightarrow>
         transport w rq = Failure e"
    unfolding res by (cases "transport w rq") (auto split: if_splits option.splits)
  from rq a b show "\<exists>rq. snd (snd (u_post lib cfg w h' path' r signed')) = [rq] \<and>
      req_timeout rq = 15 \<and>
      (\<forall>e. transport w rq = Failure e \<longrightarrow>
         fst (u_post lib cfg w h' path' r signed') = Inl (HttpxError e) \<and>
         (\<forall>c d. fst (u_post lib cfg w h' path' r signed') \<noteq> Inl (HTTPException c d))) \<and>
      (\<forall>e. fst (u_post lib cfg w h' path' r signed') = Inl (HttpxError e) \<longrightarrow>
         transport w rq = Failure e)"
    by blast
next
  fix ps
  assume ps: "order_params lib cfg od = Inr ps"
  obtain rq where rq: "snd (create_order lib cfg w od) = [rq]" "req_timeout rq = 15"
    and res: "fst (create_order lib cfg w od) =
       (case transport w rq of
          Failure e \<Rightarrow> Inl (HttpxError e)
        | Response c t \<Rightarrow>
            if 400 \<le> c then Inl (HTTPException c [Text t])
            else if t \<noteq> [] then
              (case json_loads lib t of
                 None \<Rightarrow> Inl JSONDecodeError
               | Some j \<Rightarrow> Inr (Exchange_response (Json j)))
            else Inr (Exchange_response Ok_True))"
    using create_order_sends_once[OF ps] by blast
  have a: "\<forall>e. transport w rq = Failure e \<longrightarrow>
         fst (create_order lib cfg w od) = Inl (HttpxError e) \<and>
         (\<forall>c d. fst (create_order lib cfg w od) \<noteq> Inl (HTTPException c d))"
    unfolding res by simp
  have b: "\<forall>e. fst (create_order lib cfg w od) = Inl (HttpxError e) \<longrightarrow>
         transport w rq = Failure e"
    unfolding res by (cases "transport w rq") (auto split: if_splits option.splits)
  from rq a b show "\<exists>rq. snd (create_order lib cfg w od) = [rq] \<and> req_timeout rq = 15 \<and>
         (\<forall>e. transport w rq = Failure e \<longrightarrow>
            fst (create_order lib cfg w od) = Inl (HttpxError e) \<and>
            (\<forall>c d. fst (create_order lib cfg w od) \<noteq> Inl (HTTPException c d))) \<and>
         (\<forall>e. fst (create_order lib cfg w od) = Inl (HttpxError e) \<longrightarrow>
            transport w rq = Failure e)"
    by blast
next
  fix x e
  assume x: "order_params lib cfg od = Inl x"
  then obtain d where "x = HTTPException 400 d" using order_params_400 by blast
  then show "fst (create_order lib cfg w od) \<noteq> Inl (HttpxError e)"
    using create_order_rejected[OF x, of w] by simp
qed

theorem unreachable_exchange_raises_transport_error_witness:
  "fst (u_get test_lib test_config world_down [] ''/api/v3/account'' None True) =
     Inl (HttpxError TimeoutException) \<and>
   fst (u_post test_lib test_config world_down [[(''symbol'', S ''BTCUSDT'')]]
          ''/api/v3/order'' 0 True) = Inl (HttpxError TimeoutException) \<and>
   fst (create_order test_lib test_config world_down
     (make_OrderIn ''BTCUSDT'' BUY MARKET (Some (Finite 50)) None None (Some True))) =
     Inl (HttpxError TimeoutException) \<and>
   length (snd (create_order test_lib test_config world_down
     (make_OrderIn ''BTCUSDT'' BUY MARKET (Some (Finite 50)) None None (Some True)))) = 1"
proof -
  let ?od = "make_OrderIn ''BTCUSDT'' BUY MARKET (Some (Finite 50)) None None (Some True)"
  note t = unreachable_exchange_raises_transport_error[where lib = test_lib
      and cfg = test_config and w = world_down and h = "[]" and path = "''/api/v3/account''"
      and params = None and signed = True
      and h' = "[[(''symbol'', S ''BTCUSDT'')]]" and path' = "''/api/v3/order''" and r = 0
      and signed' = True and od = ?od]
  have f: "transport world_down rq = Failure TimeoutException" for rq
    by (simp add: world_down_def)
  have ps: "order_params test_lib test_config ?od =
      Inr [(''symbol'', S ''BTCUSDT''), (''side'', S ''BUY''), (''type'', S ''MARKET''),
           (''quoteOrderQty'', S ''50.00'')]"
    by (simp add: eval_defs)
  from t obtain rq where "\<forall>e. transport world_down rq = Failure e \<longrightarrow>
      fst (u_get test_lib test_config world_down [] ''/api/v3/account'' None True) =
        Inl (HttpxError e) \<and>
      (\<forall>c d. fst (u_get test_lib test_config world_down [] ''/api/v3/account'' None True) \<noteq>
         Inl (HTTPException c d))"
    by blast
  then have g: "fst (u_get test_lib test_config world_down [] ''/api/v3/account'' None True) =
      Inl (HttpxError TimeoutException)"
    using f[of rq] by blast
  from t obtain rq' where "\<forall>e. transport world_down rq' = Failure e \<longrightarrow>
      fst (u_post test_lib test_config world_down [[(''symbol'', S ''BTCUSDT'')]]
        ''/api/v3/order'' 0 True) = Inl (HttpxError e) \<and>
      (\<forall>c d. fst (u_post test_lib test_config world_down [[(''symbol'', S ''BTCUSDT'')]]
        ''/api/v3/order'' 0 True) \<noteq> Inl (HTTPException c d))"
    by blast
  then have p: "fst (u_post test_lib test_config world_down [[(''symbol'', S ''BTCUSDT'')]]
        ''/api/v3/order'' 0 True) = Inl (HttpxError TimeoutException)"
    using f[of rq'] by blast
  from t ps obtain rq'' where c1: "snd (create_order test_lib test_config world_down ?od) = [rq'']"
    and "\<forall>e. transport world_down rq'' = Failure e \<longrightarrow>
      fst (create_order test_lib test_config world_down ?od) = Inl (HttpxError e) \<and>
      (\<forall>c d. fst (create_order test_lib test_config world_down ?od) \<noteq>
         Inl (HTTPException c d))"
    by blast
  then have c: "fst (create_order test_lib test_config world_down ?od) =
      Inl (HttpxError TimeoutException)"
    using f[of rq''] by blast
  from g p c c1 show ?thesis by simp
qed

subsection \<open>The signer\<close>

text \<open>
  Claim C3. For every parameter dictionary and secret, \<open>_sign\<close> returns the
  form-encoded query string of the dictionary followed by \<open>&signature=\<close> and the hex
  digest of HMAC-SHA256 keyed by the secret over that query string: the query
  string is the prefix of the result, the signature parameter is the rest. The
  result depends on the secret and the query string only, so signing again with
  the same secret and the same query string gives the same bytes.
\<close>

theorem sign_appends_hmac_of_query_string:
  "u_sign lib cfg params =
     urlencode params @ ''&signature='' @
     hmac_sha256_hexdigest lib (BINANCE_SECRET cfg) (urlencode params) \<and>
   take (length (urlencode params)) (u_sign lib cfg params) = urlencode params \<and>
   drop (length (urlencode params)) (u_sign lib cfg params) =
     ''&signature='' @ hmac_sha256_hexdigest lib (BINANCE_SECRET cfg) (urlencode params) \<and>
   (BINANCE_SECRET cfg = BINANCE_SECRET cfg' \<and> urlencode params = urlencode params' \<longrightarrow>
      u_sign lib cfg params = u_sign lib cfg' params')"
proof (intro conjI impI)
  show e: "u_sign lib cfg params =
     urlencode params @ ''&signature='' @
     hmac_sha256_hexdigest lib (BINANCE_SECRET cfg) (urlencode params)"
    unfolding u_sign_def Let_def by (rule refl)
  show "take (length (urlencode params)) (u_sign lib cfg params) = urlencode params"
    unfolding e by simp
  show "drop (length (urlencode params)) (u_sign lib cfg params) =
     ''&signature='' @ hmac_sha256_hexdigest lib (BINANCE_SECRET cfg) (urlencode params)"
    unfolding e by simp
next
  assume a: "BINANCE_SECRET cfg = BINANCE_SECRET cfg' \<and> urlencode params = urlencode params'"
  have "u_sign lib cfg params =
     urlencode params' @ ''&signature='' @
     hmac_sha256_hexdigest lib (BINANCE_SECRET cfg') (urlencode params')"
    unfolding u_sign_def Let_def using a by presburger
  also have "\<dots> = u_sign lib cfg' params'"
    unfolding u_sign_def Let_def by (rule refl)
  finally show "u_sign lib cfg params = u_sign lib cfg' params'" .
qed

theorem sign_appends_hmac_of_query_string_witness:
  "BINANCE_SECRET test_config = BINANCE_SECRET (test_config\<lparr>BINANCE_KEY := ''other''\<rparr>) \<and>
   u_sign test_lib test_config
     [(''symbol'', S ''BTCUSDT''), (''timestamp'', I 1700000000000)] =
   u_sign test_lib (test_config\<lparr>BINANCE_KEY := ''other''\<rparr>)
     [(''symbol'', S ''BTCUSDT''), (''timestamp'', I 1700000000000)] \<and>
   u_sign test_lib test_config
     [(''symbol'', S ''BTCUSDT''), (''timestamp'', I 1700000000000)] =
   ''symbol=BTCUSDT&timestamp=1700000000000&signature='' @
   hmac_sha256_hexdigest test_lib ''s'' ''symbol=BTCUSDT&timestamp=1700000000000''"
proof -
  let ?p = "[(''symbol'', S ''BTCUSDT''), (''timestamp'', I 1700000000000)]"
  let ?c = "test_config\<lparr>BINANCE_KEY := ''other''\<rparr>"
  have s: "BINANCE_SECRET test_config = BINANCE_SECRET ?c"
    by (simp add: test_config_def)
  have s2: "BINANCE_SECRET test_config = ''s''"
    by (simp add: test_config_def)
  have q: "urlencode ?p = ''symbol=BTCUSDT&timestamp=1700000000000''"
    by (simp add: eval_defs)
  note t = sign_appends_hmac_of_query_string[of test_lib test_config ?p ?c ?p]
  from t s have one: "u_sign test_lib test_config ?p = u_sign test_lib ?c ?p" by blast
  from t have "u_sign test_lib test_config ?p =
     urlencode ?p @ ''&signature='' @
     hmac_sha256_hexdigest test_lib (BINANCE_SECRET test_config) (urlencode ?p)" by blast
  then have two: "u_sign test_lib test_config ?p =
     ''symbol=BTCUSDT&timestamp=1700000000000&signature='' @
     hmac_sha256_hexdigest test_lib ''s'' ''symbol=BTCUSDT&timestamp=1700000000000''"
    unfolding q s2 by simp
  from s one two show ?thesis by blast
qed

subsection \<open>The symbol check and letter case\<close>

text \<open>
  Claim C8, as the code has it. The incoming symbol is upper-cased before it is
  compared with the allowed set and before it is forwarded; the allowed set is
  taken from the environment as written. So for every allowed symbol that is
  its own upper-casing, a request whose symbol upper-cases to it passes the symbol
  check, is handled exactly as a request that spells the allowed symbol, and
  forwards the allowed symbol.
\<close>

theorem symbol_check_ignores_case:
  assumes "a \<in> ALLOWED_SYMBOLS cfg" and "str_upper lib a = a"
    and "str_upper lib (symbol od) = str_upper lib a"
  shows "str_upper lib (symbol od) \<in> ALLOWED_SYMBOLS cfg \<and>
    order_params lib cfg od = order_params lib cfg (od\<lparr>symbol := a\<rparr>) \<and>
    create_order lib cfg w od = create_order lib cfg w (od\<lparr>symbol := a\<rparr>) \<and>
    order_params lib cfg od \<noteq>
      Inl (HTTPException 400
        [Text (''Pair non autoris'' @ e_acute @ ''e. Autoris'' @ e_acute @ ''es: ''),
         ListRepr (sorted_list_of_set (ALLOWED_SYMBOLS cfg))]) \<and>
    (\<forall>ps. order_params lib cfg od = Inr ps \<longrightarrow> dict_get ps ''symbol'' = Some (S a))"
proof (intro conjI allI impI)
  show m: "str_upper lib (symbol od) \<in> ALLOWED_SYMBOLS cfg" using assms by simp
  show e: "order_params lib cfg od = order_params lib cfg (od\<lparr>symbol := a\<rparr>)"
    using assms
    by (cases "otype od"; cases "side od"; cases "quote_amount od"; cases "quantity od";
        cases "price od") (simp_all add: order_params_def)
  then show "create_order lib cfg w od = create_order lib cfg w (od\<lparr>symbol := a\<rparr>)"
    by (simp add: create_order_def)
  show "order_params lib cfg od \<noteq>
      Inl (HTTPException 400
        [Text (''Pair non autoris'' @ e_acute @ ''e. Autoris'' @ e_acute @ ''es: ''),
         ListRepr (sorted_list_of_set (ALLOWED_SYMBOLS cfg))])"
    using m
    by (auto simp: order_params_def Let_def
        split: order_type.splits side.splits option.splits)
next
  fix ps
  assume "order_params lib cfg od = Inr ps"
  then show "dict_get ps ''symbol'' = Some (S a)"
    using assms
    by (auto simp: order_params_def Let_def
        split: if_splits order_type.splits side.splits option.splits)
qed

theorem symbol_check_ignores_case_witness:
  "''BTCUSDT'' \<in> ALLOWED_SYMBOLS test_config \<and> str_upper test_lib ''BTCUSDT'' = ''BTCUSDT'' \<and>
   str_upper test_lib ''BtcUsdt'' = ''BTCUSDT'' \<and>
   create_order test_lib test_config world_ok
     (make_OrderIn ''BtcUsdt'' SELL MARKET None (Some (Finite 2)) None (Some True)) =
   create_order test_lib test_config world_ok
     (make_OrderIn ''BTCUSDT'' SELL MARKET None (Some (Finite 2)) None (Some True)) \<and>
   order_params test_lib test_config
     (make_OrderIn ''BtcUsdt'' SELL MARKET None (Some (Finite 2)) None (Some True)) =
     Inr [(''symbol'', S ''BTCUSDT''), (''side'', S ''SELL''), (''type'', S ''MARKET''),
          (''quantity'', S ''2.000000'')]"
proof -
  let ?od = "make_OrderIn ''BtcUsdt'' SELL MARKET None (Some (Finite 2)) None (Some True)"
  have h: "''BTCUSDT'' \<in> ALLOWED_SYMBOLS test_config"
    "str_upper test_lib ''BTCUSDT'' = ''BTCUSDT''"
    "str_upper test_lib (symbol ?od) = str_upper test_lib ''BTCUSDT''"
    by (simp_all add: eval_defs)
  have u: "str_upper test_lib ''BtcUsdt'' = ''BTCUSDT''"
    by (simp add: eval_defs)
  have p: "order_params test_lib test_config
     (make_OrderIn ''BTCUSDT'' SELL MARKET None (Some (Finite 2)) None (Some True)) =
     Inr [(''symbol'', S ''BTCUSDT''), (''side'', S ''SELL''), (''type'', S ''MARKET''),
          (''quantity'', S ''2.000000'')]"
    by (simp add: eval_defs)
  from symbol_check_ignores_case[OF h, of world_ok] h u p
  show ?thesis by (simp add: make_OrderIn_def)
qed

text \<open>
  An allowed symbol that the environment gives in lower case is matched by no
  request, in any casing: the request is upper-cased, the allowed set is not.
\<close>

theorem lower_case_allowed_symbol_never_matches:
  "''btcusdt'' \<in> allowed_symbols_of (Some ''btcusdt'') \<and>
   create_order test_lib (test_config\<lparr>ALLOWED_SYMBOLS := allowed_symbols_of (Some ''btcusdt'')\<rparr>)
     world_ok (make_OrderIn ''btcusdt'' BUY MARKET (Some (Finite 50)) None None (Some True)) =
     (Inl (HTTPException 400
        [Text (''Pair non autoris'' @ e_acute @ ''e. Autoris'' @ e_acute @ ''es: ''),
         ListRepr [''btcusdt'']]), []) \<and>
   create_order test_lib (test_config\<lparr>ALLOWED_SYMBOLS := allowed_symbols_of (Some ''btcusdt'')\<rparr>)
     world_ok (make_OrderIn ''BTCUSDT'' BUY MARKET (Some (Finite 50)) None None (Some True)) =
     (Inl (HTTPException 400
        [Text (''Pair non autoris'' @ e_acute @ ''e. Autoris'' @ e_acute @ ''es: ''),
         ListRepr [''btcusdt'']]), [])"
  by (simp add: eval_defs)

subsection \<open>Signed calls and the caller's dictionary\<close>

lemma dict_get_dict_set: "dict_get (dict_set d k v) k = Some v"
  by (induction d) auto

lemma dict_set_changes: "dict_get d k \<noteq> Some v \<Longrightarrow> dict_set d k v \<noteq> d"
  using dict_get_dict_set[of d k v] by auto

lemma u_sign_nonempty: "u_sign lib cfg d \<noteq> []"
  by (simp add: u_sign_def Let_def)

lemma u_post_store:
  "fst (snd (u_post lib cfg w h path r True)) =
     h[r := dict_set (h ! r) ''timestamp'' (I (now_ms w))]"
  by (simp add: u_post_def Let_def split: outcome.splits option.splits)

lemma u_get_store_nonempty:
  "h ! r \<noteq> [] \<Longrightarrow> fst (snd (u_get lib cfg w h path (Some r) True)) =
     h[r := dict_set (h ! r) ''timestamp'' (I (now_ms w))]"
  by (simp add: u_get_def Let_def split: outcome.splits option.splits)

lemma u_get_store_empty:
  "h ! r = [] \<Longrightarrow> fst (snd (u_get lib cfg w h path (Some r) True)) =
     h @ [[(''timestamp'', I (now_ms w))]]"
  by (simp add: u_get_def Let_def alloc_def split: outcome.splits option.splits)

lemma u_post_request:
  "r < length h \<Longrightarrow> snd (snd (u_post lib cfg w h path r True)) =
     [\<lparr>req_method = POST, req_url = BASE_URL cfg @ path,
       req_data = Some (u_sign lib cfg (dict_set (h ! r) ''timestamp'' (I (now_ms w)))),
       req_headers = [(''X-MBX-APIKEY'', BINANCE_KEY cfg),
                      (''Content-Type'', ''application/x-www-form-urlencoded'')],
       req_timeout = 15\<rparr>]"
  by (simp add: u_post_def Let_def split: outcome.splits option.splits)

lemma u_get_request_nonempty:
  "r < length h \<Longrightarrow> h ! r \<noteq> [] \<Longrightarrow> snd (snd (u_get lib cfg w h path (Some r) True)) =
     [\<lparr>req_method = GET,
       req_url = BASE_URL cfg @ path @ ''?'' @
         u_sign lib cfg (dict_set (h ! r) ''timestamp'' (I (now_ms w))),
       req_data = None, req_headers = [(''X-MBX-APIKEY'', BINANCE_KEY cfg)],
       req_timeout = 15\<rparr>]"
  by (simp add: u_get_def Let_def u_sign_nonempty split: outcome.splits option.splits)

lemma u_get_request_empty:
  "h ! r = [] \<Longrightarrow> snd (snd (u_get lib cfg w h path (Some r) True)) =
     [\<lparr>req_method = GET,
       req_url = BASE_URL cfg @ path @ ''?'' @
         u_sign lib cfg [(''timestamp'', I (now_ms w))],
       req_data = None, req_headers = [(''X-MBX-APIKEY'', BINANCE_KEY cfg)],
       req_timeout = 15\<rparr>]"
  by (simp add: u_get_def Let_def alloc_def u_sign_nonempty
      split: outcome.splits option.splits)

text \<open>
  Claim C10, as the code has it. With \<open>signed=True\<close>, \<open>_post\<close> sets the key
  \<open>timestamp\<close> of the caller's dictionary in place, and \<open>_get\<close> does so when that
  dictionary is not empty: after the call the caller's dictionary is the one
  passed in with \<open>timestamp\<close> set to the current time, every other dictionary is
  as before, and the request signs the updated dictionary. The caller's
  dictionary then differs from what was passed in unless it already held that
  very entry. A caller's empty dictionary is left as it was by \<open>_get\<close>: \<open>params or {}\<close>
  replaces it with a new dictionary, which receives the timestamp and is signed.
\<close>

theorem signed_call_sets_timestamp_in_place:
  assumes "r < length h"
  shows
   "fst (snd (u_post lib cfg w h path r True)) ! r =
      dict_set (h ! r) ''timestamp'' (I (now_ms w)) \<and>
    map req_data (snd (snd (u_post lib cfg w h path r True))) =
      [Some (u_sign lib cfg (dict_set (h ! r) ''timestamp'' (I (now_ms w))))] \<and>
    (h ! r \<noteq> [] \<longrightarrow>
       fst (snd (u_get lib cfg w h path (Some r) True)) ! r =
         dict_set (h ! r) ''timestamp'' (I (now_ms w)) \<and>
       map req_url (snd (snd (u_get lib cfg w h path (Some r) True))) =
         [BASE_URL cfg @ path @ ''?'' @
          u_sign lib cfg (dict_set (h ! r) ''timestamp'' (I (now_ms w)))]) \<and>
    (h ! r = [] \<longrightarrow>
       fst (snd (u_get lib cfg w h path (Some r) True)) =
         h @ [[(''timestamp'', I (now_ms w))]] \<and>
       fst (snd (u_get lib cfg w h path (Some r) True)) ! r = [] \<and>
       map req_url (snd (snd (u_get lib cfg w h path (Some r) True))) =
         [BASE_URL cfg @ path @ ''?'' @ u_sign lib cfg [(''timestamp'', I (now_ms w))]]) \<and>
    (\<forall>r'. r' < length h \<and> r' \<noteq> r \<longrightarrow>
       fst (snd (u_post lib cfg w h path r True)) ! r' = h ! r' \<and>
       fst (snd (u_get lib cfg w h path (Some r) True)) ! r' = h ! r') \<and>
    dict_get (dict_set (h ! r) ''timestamp'' (I (now_ms w))) ''timestamp'' =
      Some (I (now_ms w)) \<and>
    (dict_get (h ! r) ''timestamp'' \<noteq> Some (I (now_ms w)) \<longrightarrow>
       fst (snd (u_post lib cfg w h path r True)) ! r \<noteq> h ! r \<and>
       (h ! r \<noteq> [] \<longrightarrow> fst (snd (u_get lib cfg w h path (Some r) True)) ! r \<noteq> h ! r))"
proof (intro conjI impI allI)
  show p: "fst (snd (u_post lib cfg w h path r True)) ! r =
      dict_set (h ! r) ''timestamp'' (I (now_ms w))"
    using assms by (simp add: u_post_store)
  show "map req_data (snd (snd (u_post lib cfg w h path r True))) =
      [Some (u_sign lib cfg (dict_set (h ! r) ''timestamp'' (I (now_ms w))))]"
    using assms by (simp add: u_post_request)
  show "dict_get (dict_set (h ! r) ''timestamp'' (I (now_ms w))) ''timestamp'' =
      Some (I (now_ms w))"
    by (rule dict_get_dict_set)
  {
    assume ne: "h ! r \<noteq> []"
    show "fst (snd (u_get lib cfg w h path (Some r) True)) ! r =
         dict_set (h ! r) ''timestamp'' (I (now_ms w))"
      using assms ne by (simp add: u_get_store_nonempty)
    show "map req_url (snd (snd (u_get lib cfg w h path (Some r) True))) =
         [BASE_URL cfg @ path @ ''?'' @
          u_sign lib cfg (dict_set (h ! r) ''timestamp'' (I (now_ms w)))]"
      using assms ne by (simp add: u_get_request_nonempty)
  }
  {
    assume em: "h ! r = []"
    show "fst (snd (u_get lib cfg w h path (Some r) True)) =
         h @ [[(''timestamp'', I (now_ms w))]]"
      using em by (rule u_get_store_empty)
    show "fst (snd (u_get lib cfg w h path (Some r) True)) ! r = []"
      using assms em by (simp add: u_get_store_empty nth_append)
    show "map req_url (snd (snd (u_get lib cfg w h path (Some r) True))) =
         [BASE_URL cfg @ path @ ''?'' @ u_sign lib cfg [(''timestamp'', I (now_ms w))]]"
      using em by (simp add: u_get_request_empty)
  }
  {
    fix r'
    assume o: "r' < length h \<and> r' \<noteq> r"
    show "fst (snd (u_post lib cfg w h path r True)) ! r' = h ! r'"
      using o by (simp add: u_post_store)
    show "fst (snd (u_get lib cfg w h path (Some r) True)) ! r' = h ! r'"
      using o by (cases "h ! r = []")
        (simp_all add: u_get_store_empty u_get_store_nonempty nth_append)
  }
  {
    assume d: "dict_get (h ! r) ''timestamp'' \<noteq> Some (I (now_ms w))"
    show "fst (snd (u_post lib cfg w h path r True)) ! r \<noteq> h ! r"
      unfolding p using d by (rule dict_set_changes)
    assume "h ! r \<noteq> []"
    then have "fst (snd (u_get lib cfg w h path (Some r) True)) ! r =
         dict_set (h ! r) ''timestamp'' (I (now_ms w))"
      using assms by (simp add: u_get_store_nonempty)
    then show "fst (snd (u_get lib cfg w h path (Some r) True)) ! r \<noteq> h ! r"
      using dict_set_changes[OF d] by simp
  }
qed

theorem signed_call_sets_timestamp_in_place_witness:
  "(0::nat) < length [[(''symbol'', S ''BTCUSDT'')]] \<and>
   fst (snd (u_post test_lib test_config world_ok [[(''symbol'', S ''BTCUSDT'')]]
     ''/api/v3/order'' 0 True)) ! 0 =
     [(''symbol'', S ''BTCUSDT''), (''timestamp'', I 1700000000000)] \<and>
   fst (snd (u_get test_lib test_config world_ok [[(''symbol'', S ''BTCUSDT'')]]
     ''/api/v3/openOrders'' (Some 0) True)) ! 0 =
     [(''symbol'', S ''BTCUSDT''), (''timestamp'', I 1700000000000)] \<and>
   map req_url (snd (snd (u_get test_lib test_config world_ok [[(''symbol'', S ''BTCUSDT'')]]
     ''/api/v3/openOrders'' (Some 0) True))) =
     [BASE_URL test_config @ ''/api/v3/openOrders'' @ ''?'' @ u_sign test_lib test_config
        [(''symbol'', S ''BTCUSDT''), (''timestamp'', I 1700000000000)]]"
proof -
  let ?h = "[[(''symbol'', S ''BTCUSDT'')]]"
  have l: "(0::nat) < length ?h" by simp
  have n: "now_ms world_ok = 1700000000000" by (simp add: world_ok_def)
  from signed_call_sets_timestamp_in_place[OF l, of test_lib test_config world_ok
      "''/api/v3/order''"]
  have a: "fst (snd (u_post test_lib test_config world_ok ?h ''/api/v3/order'' 0 True)) ! 0 =
     [(''symbol'', S ''BTCUSDT''), (''timestamp'', I 1700000000000)]"
    unfolding n by simp
  from signed_call_sets_timestamp_in_place[OF l, of test_lib test_config world_ok
      "''/api/v3/openOrders''"]
  have b: "fst (snd (u_get test_lib test_config world_ok ?h ''/api/v3/openOrders''
      (Some 0) True)) ! 0 =
     [(''symbol'', S ''BTCUSDT''), (''timestamp'', I 1700000000000)]"
    "map req_url (snd (snd (u_get test_lib test_config world_ok ?h ''/api/v3/openOrders''
      (Some 0) True))) =
     [BASE_URL test_config @ ''/api/v3/openOrders'' @ ''?'' @ u_sign test_lib test_config
        [(''symbol'', S ''BTCUSDT''), (''timestamp'', I 1700000000000)]]"
    unfolding n by simp_all
  from l a b show ?thesis by blast
qed

text \<open>
  \<open>_get\<close> does not touch a caller's empty dictionary, and a dictionary that already
  holds the timestamp of the call is the same after \<open>_post\<close> as before.
\<close>

theorem get_keeps_callers_empty_dictionary:
  "fst (snd (u_get test_lib test_config world_ok [[]] ''/api/v3/account'' (Some 0) True)) =
     [[], [(''timestamp'', I 1700000000000)]] \<and>
   fst (snd (u_get test_lib test_config world_ok [[]] ''/api/v3/account'' (Some 0) True)) ! 0 =
     [[]] ! 0 \<and>
   dict_get (fst (snd (u_get test_lib test_config world_ok [[]] ''/api/v3/account''
     (Some 0) True)) ! 0) ''timestamp'' = None \<and>
   fst (snd (u_post test_lib test_config world_ok [[(''timestamp'', I 1700000000000)]]
     ''/api/v3/order'' 0 True)) ! 0 = [[(''timestamp'', I 1700000000000)]] ! 0"
  by (simp add: u_get_store_empty u_post_store world_ok_def)

end
